theory Spec2Isabelle
  imports Complex_Main
begin

section \<open>Identifier normalisation\<close>

text \<open>
  \<^verbatim>\<open>data_loader.standardize_cnpj\<close>.  A Python \<^verbatim>\<open>str\<close> is modelled as a list of
  characters whose code points lie below 256.  On that range \<^verbatim>\<open>str.isdigit\<close> accepts the
  ten ASCII digits and the three superscript digits U+00B2, U+00B3 and U+00B9.
\<close>

definition isdigit :: "char \<Rightarrow> bool" where
  "isdigit c =
     (let n = (of_char c :: nat)
      in (48 \<le> n \<and> n \<le> 57) \<or> n = 178 \<or> n = 179 \<or> n = 185)"

text \<open>
  \<^verbatim>\<open>str.zfill(width)\<close>: pads on the left with the character 0 up to \<^verbatim>\<open>width\<close>; a leading
  sign stays in front of the padding.
\<close>

definition zfill :: "nat \<Rightarrow> string \<Rightarrow> string" where
  "zfill width s =
     (if width \<le> length s then s
      else (case s of
              [] \<Rightarrow> replicate width (CHR ''0'')
            | c # rest \<Rightarrow>
                if c = CHR ''+'' \<or> c = CHR ''-''
                then c # replicate (width - length s) (CHR ''0'') @ rest
                else replicate (width - length s) (CHR ''0'') @ s))"

text \<open>
  The argument is \<^verbatim>\<open>Optional[str]\<close>: \<open>None\<close> is Python's \<^verbatim>\<open>None\<close>.
\<close>

definition standardize_cnpj :: "string option \<Rightarrow> string option" where
  "standardize_cnpj cnpj =
     (case cnpj of
        None \<Rightarrow> None
      | Some s \<Rightarrow>
          (let cnpj_clean = filter isdigit s
           in if length cnpj_clean = 14 then Some cnpj_clean
              else if length cnpj_clean < 14 then Some (zfill 14 cnpj_clean)
              else Some (take 14 cnpj_clean)))"


section \<open>Floating-point values and Python errors\<close>

text \<open>
  A Python or NumPy float is modelled as a real number or one of the three special values
  of IEEE arithmetic.  Rounding is not modelled: the finite values are exact reals.  The
  operations below follow NumPy's behaviour on the special values (no exception is raised
  by a division by zero on NumPy floats; the result is an infinity or NaN).
\<close>

datatype pyfloat = Fin real | PosInf | NegInf | NaN

datatype pyerr = ValueError | ZeroDivisionError | KeyError | TypeError | OverflowError | IndexError

fun neg_py :: "pyfloat \<Rightarrow> pyfloat" where
  "neg_py (Fin a) = Fin (- a)"
| "neg_py PosInf = NegInf"
| "neg_py NegInf = PosInf"
| "neg_py NaN = NaN"

fun add_py :: "pyfloat \<Rightarrow> pyfloat \<Rightarrow> pyfloat" where
  "add_py (Fin a) (Fin b) = Fin (a + b)"
| "add_py NaN _ = NaN"
| "add_py _ NaN = NaN"
| "add_py PosInf NegInf = NaN"
| "add_py NegInf PosInf = NaN"
| "add_py PosInf _ = PosInf"
| "add_py NegInf _ = NegInf"
| "add_py _ PosInf = PosInf"
| "add_py _ NegInf = NegInf"

definition sub_py :: "pyfloat \<Rightarrow> pyfloat \<Rightarrow> pyfloat" where
  "sub_py a b = add_py a (neg_py b)"

fun mul_py :: "pyfloat \<Rightarrow> pyfloat \<Rightarrow> pyfloat" where
  "mul_py (Fin a) (Fin b) = Fin (a * b)"
| "mul_py NaN _ = NaN"
| "mul_py _ NaN = NaN"
| "mul_py (Fin a) PosInf = (if a = 0 then NaN else if 0 < a then PosInf else NegInf)"
| "mul_py (Fin a) NegInf = (if a = 0 then NaN else if 0 < a then NegInf else PosInf)"
| "mul_py PosInf (Fin b) = (if b = 0 then NaN else if 0 < b then PosInf else NegInf)"
| "mul_py NegInf (Fin b) = (if b = 0 then NaN else if 0 < b then NegInf else PosInf)"
| "mul_py PosInf PosInf = PosInf"
| "mul_py PosInf NegInf = NegInf"
| "mul_py NegInf PosInf = NegInf"
| "mul_py NegInf NegInf = PosInf"

fun div_py :: "pyfloat \<Rightarrow> pyfloat \<Rightarrow> pyfloat" where
  "div_py (Fin a) (Fin b) =
     (if b \<noteq> 0 then Fin (a / b)
      else if 0 < a then PosInf else if a < 0 then NegInf else NaN)"
| "div_py NaN _ = NaN"
| "div_py _ NaN = NaN"
| "div_py (Fin a) PosInf = Fin 0"
| "div_py (Fin a) NegInf = Fin 0"
| "div_py PosInf (Fin b) = (if 0 \<le> b then PosInf else NegInf)"
| "div_py NegInf (Fin b) = (if 0 \<le> b then NegInf else PosInf)"
| "div_py PosInf PosInf = NaN"
| "div_py PosInf NegInf = NaN"
| "div_py NegInf PosInf = NaN"
| "div_py NegInf NegInf = NaN"

text \<open>Comparisons: every comparison with NaN is false.\<close>

fun lt_py :: "pyfloat \<Rightarrow> pyfloat \<Rightarrow> bool" where
  "lt_py (Fin a) (Fin b) = (a < b)"
| "lt_py NaN _ = False"
| "lt_py _ NaN = False"
| "lt_py NegInf NegInf = False"
| "lt_py NegInf _ = True"
| "lt_py PosInf _ = False"
| "lt_py (Fin a) PosInf = True"
| "lt_py (Fin a) NegInf = False"

text \<open>
  \<^verbatim>\<open>b ** e\<close> on a NumPy float: a negative base with an exponent that is not a whole
  number gives NaN.
\<close>

definition py_pow :: "real \<Rightarrow> real \<Rightarrow> pyfloat" where
  "py_pow b e =
     (if 0 < b then Fin (b powr e)
      else if b = 0 then (if 0 < e then Fin 0 else if e = 0 then Fin 1 else PosInf)
      else if of_int \<lfloor>e\<rfloor> = e then Fin (b powi \<lfloor>e\<rfloor>)
      else NaN)"

text \<open>\<^verbatim>\<open>np.sqrt\<close> of a number: NaN below zero.\<close>

definition np_sqrt :: "real \<Rightarrow> pyfloat" where
  "np_sqrt x = (if x < 0 then NaN else Fin (sqrt x))"

section \<open>Return series and their statistics\<close>

text \<open>
  A return series (a \<^verbatim>\<open>pandas.Series\<close> of floats without missing values) is the list of
  its (index label, value) pairs in positional order.  Where only the values matter
  (the static methods of \<^verbatim>\<open>PortfolioMetrics\<close>) the series is the list of its values.
\<close>

type_synonym 'd series = "('d \<times> real) list"

text \<open>\<^verbatim>\<open>Series.mean()\<close> (NaN on the empty series) and \<^verbatim>\<open>Series.std()\<close> (sample
  standard deviation, \<^verbatim>\<open>ddof = 1\<close>; NaN below two values), in exact arithmetic: the
  rounding of the float64 sums and quotients is not part of the model, and no statement
  below is about the value of a mean or a standard deviation.\<close>

definition mean :: "real list \<Rightarrow> pyfloat" where
  "mean x = (if x = [] then NaN else Fin (sum_list x / real (length x)))"

definition std :: "real list \<Rightarrow> pyfloat" where
  "std x =
     (if length x < 2 then NaN
      else let m = sum_list x / real (length x)
           in Fin (sqrt (sum_list (map (\<lambda>v. (v - m)\<^sup>2) x) / (real (length x) - 1))))"

subsection \<open>Frequency resampler (\<^verbatim>\<open>portfolio_metrics.get_returns_for_frequency\<close>)\<close>

text \<open>The function applied to each window: \<^verbatim>\<open>lambda x: (1 + x).prod() - 1\<close>.\<close>

definition compound :: "real list \<Rightarrow> real" where
  "compound x = prod_list (map (\<lambda>r. 1 + r) x) - 1"

text \<open>
  \<^verbatim>\<open>Series.rolling(window).apply(f, raw=False)\<close>: one output per input position, missing
  (NaN) until \<^verbatim>\<open>window\<close> observations are available, then \<open>f\<close> of the last \<^verbatim>\<open>window\<close>
  values.  \<^verbatim>\<open>dropna\<close> removes the missing outputs.
\<close>

definition rolling_apply ::
  "nat \<Rightarrow> (real list \<Rightarrow> real) \<Rightarrow> 'd series \<Rightarrow> ('d \<times> real option) list" where
  "rolling_apply window f s =
     map (\<lambda>i. (fst (s ! i),
               if i + 1 < window then None
               else Some (f (map snd (take window (drop (i + 1 - window) s))))))
       [0 ..< length s]"

definition dropna :: "('d \<times> real option) list \<Rightarrow> 'd series" where
  "dropna s = concat (map (\<lambda>(d, v). case v of None \<Rightarrow> [] | Some x \<Rightarrow> [(d, x)]) s)"

text \<open>The result is the tuple \<^verbatim>\<open>(returns, mean, std, latest)\<close>.\<close>

definition get_returns_for_frequency ::
  "'d series \<Rightarrow> string \<Rightarrow> 'd series \<times> pyfloat \<times> pyfloat \<times> pyfloat" where
  "get_returns_for_frequency daily_returns frequency =
     (let returns =
            (if frequency = ''daily'' then daily_returns
             else if frequency = ''weekly'' then dropna (rolling_apply 5 compound daily_returns)
             else if frequency = ''monthly'' then dropna (rolling_apply 22 compound daily_returns)
             else daily_returns)
      in if length returns = 0 then (returns, Fin 0, Fin 0, Fin 0)
         else (returns, mean (map snd returns), std (map snd returns),
               Fin (snd (last returns))))"

subsection \<open>Sortino ratio (\<^verbatim>\<open>PortfolioMetrics.annualized_return\<close>, \<^verbatim>\<open>PortfolioMetrics.sortino_ratio\<close>)\<close>

text \<open>
  \<^verbatim>\<open>periods_per_year\<close> is a Python \<^verbatim>\<open>int\<close>; \<^verbatim>\<open>n_periods / periods_per_year\<close> raises
  \<^verbatim>\<open>ZeroDivisionError\<close> when it is zero.
\<close>

definition annualized_return :: "real list \<Rightarrow> int \<Rightarrow> pyerr + pyfloat" where
  "annualized_return returns periods_per_year =
     (if length returns = 0 then Inr (Fin 0)
      else let total_return = prod_list (map (\<lambda>r. 1 + r) returns) - 1;
               n_periods = length returns
           in if periods_per_year = 0 then Inl ZeroDivisionError
              else let years = real n_periods / real_of_int periods_per_year
                   in if years \<le> 0 then Inr (Fin 0)
                      else Inr (sub_py (py_pow (1 + total_return) (1 / years)) (Fin 1)))"

definition sortino_ratio :: "real list \<Rightarrow> real \<Rightarrow> int \<Rightarrow> pyerr + pyfloat" where
  "sortino_ratio returns target_return periods_per_year =
     (if length returns < 2 then Inr (Fin 0)
      else case annualized_return returns periods_per_year of
             Inl e \<Rightarrow> Inl e
           | Inr ann_ret \<Rightarrow>
               (let downside_returns = filter (\<lambda>r. r < target_return) returns
                in if length downside_returns = 0
                   then Inr (if lt_py (Fin target_return) ann_ret then PosInf else Fin 0)
                   else let downside_std =
                              mul_py
                                (np_sqrt (sum_list (map (\<lambda>r. r\<^sup>2) downside_returns)
                                            / real (length downside_returns)))
                                (np_sqrt (real_of_int periods_per_year))
                        in if downside_std = Fin 0
                           then Inr (if lt_py (Fin target_return) ann_ret then PosInf else Fin 0)
                           else Inr (div_py (sub_py ann_ret (Fin target_return)) downside_std)))"

text \<open>
  The downside deviation as the specification words it, for comparison with the code:
  the square root of the mean, over all observations, of \<open>min (r - target, 0)\<^sup>2\<close>, times
  the square root of the periods per year.
\<close>

definition spec_downside_deviation :: "real list \<Rightarrow> real \<Rightarrow> int \<Rightarrow> real" where
  "spec_downside_deviation returns target periods_per_year =
     sqrt (sum_list (map (\<lambda>r. (min (r - target) 0)\<^sup>2) returns) / real (length returns))
       * sqrt (real_of_int periods_per_year)"

section \<open>Portfolio aggregation (\<^verbatim>\<open>portfolio_metrics.calculate_portfolio_returns\<close>)\<close>

text \<open>
  A Python \<^verbatim>\<open>dict\<close> is an association list in insertion order (its keys are distinct).
  A \<^verbatim>\<open>pandas.DataFrame\<close> of floats is its list of column names and its rows, each an
  index label with one optional value per column (\<open>None\<close> is NaN).

  \<^verbatim>\<open>pd.DataFrame(dict_of_series)\<close> aligns the series on the union of their indexes.  When
  all indexes are equal that index is kept as it is and the columns are the series'
  values.  Otherwise the union is sorted and every series is re-indexed to it, a label the
  series lacks giving NaN; re-indexing a series whose index has a repeated label raises
  \<^verbatim>\<open>ValueError\<close>.
\<close>

type_synonym 'd frame = "string list \<times> ('d \<times> real option list) list"

definition union_index :: "('d::linorder) list list \<Rightarrow> pyerr + 'd list" where
  "union_index idxs =
     (case idxs of
        [] \<Rightarrow> Inr []
      | i # rest \<Rightarrow>
          if list_all (\<lambda>j. j = i) rest then Inr i
          else if list_all distinct idxs then Inr (sort (remdups (concat idxs)))
          else Inl ValueError)"

definition dataframe :: "(string \<times> ('d::linorder) series) list \<Rightarrow> pyerr + 'd frame" where
  "dataframe d =
     (case union_index (map (\<lambda>(name, s). map fst s) d) of
        Inl e \<Rightarrow> Inl e
      | Inr idx \<Rightarrow>
          if list_all (\<lambda>(name, s). map fst s = idx) d
          then Inr (map fst d,
                    map (\<lambda>i. (idx ! i, map (\<lambda>(name, s). Some (snd (s ! i))) d)) [0 ..< length idx])
          else Inr (map fst d, map (\<lambda>t. (t, map (\<lambda>(name, s). map_of s t) d)) idx))"

text \<open>\<^verbatim>\<open>DataFrame.dropna()\<close>: the rows without a missing value.\<close>

definition frame_dropna :: "'d frame \<Rightarrow> string list \<times> ('d \<times> real list) list" where
  "frame_dropna df =
     (fst df, List.map_filter (\<lambda>(t, vs). map_option (Pair t) (those vs)) (snd df))"

text \<open>\<^verbatim>\<open>df[name]\<close> for a column name of the frame.\<close>

definition frame_column :: "string list \<times> ('d \<times> real list) list \<Rightarrow> string \<Rightarrow> real list" where
  "frame_column df name =
     map (\<lambda>(t, vs). vs ! length (takeWhile (\<lambda>c. c \<noteq> name) (fst df))) (snd df)"

text \<open>
  The normalised weights; \<open>None\<close> when the total weight is zero (the function then
  returns \<^verbatim>\<open>None\<close>).  The total is the exact sum: a float64 sum that rounds to a
  non-zero value where the exact sum is zero is outside the model.
\<close>

definition normalize_weights :: "(string \<times> real) list \<Rightarrow> (string \<times> real) list option" where
  "normalize_weights weights =
     (let total_weight = sum_list (map snd weights)
      in if total_weight = 0 then None
         else Some (map (\<lambda>(k, v). (k, v / total_weight)) weights))"

definition calculate_portfolio_returns ::
  "(string \<times> ('d::linorder) series) list \<Rightarrow> (string \<times> real) list \<Rightarrow> pyerr + 'd series option" where
  "calculate_portfolio_returns fund_returns_dict weights =
     (if fund_returns_dict = [] \<or> weights = [] then Inr None
      else case normalize_weights weights of
             None \<Rightarrow> Inr None
           | Some normalized_weights \<Rightarrow>
               (case dataframe fund_returns_dict of
                  Inl e \<Rightarrow> Inl e
                | Inr returns_df0 \<Rightarrow>
                    (let returns_df = frame_dropna returns_df0
                     in if length (snd returns_df) = 0 then Inr None
                        else Inr (Some
                          (foldl
                             (\<lambda>portfolio_returns (fund_name, weight).
                                if fund_name \<in> set (fst returns_df)
                                then map2 (\<lambda>(t, p) r. (t, p + r * weight)) portfolio_returns
                                       (frame_column returns_df fund_name)
                                else portfolio_returns)
                             (map (\<lambda>(t, vs). (t, 0)) (snd returns_df))
                             normalized_weights)))))"

section \<open>Tables of raw records\<close>

text \<open>
  A \<^verbatim>\<open>pandas.DataFrame\<close> of raw records is modelled column by column.  A column is a
  float column (NaN is the missing value), an object column of strings (with \<^verbatim>\<open>None\<close> or
  NaN for a missing value) or a datetime column (\<open>None\<close> is \<^verbatim>\<open>NaT\<close>); a timestamp is an
  integer.  The index is a \<^verbatim>\<open>DatetimeIndex\<close> or any other index, and may carry a name.
  The columns of a table are its (name, column) pairs in order; all columns and the index
  have the same length.
\<close>

datatype ocell = ONone | ONaN | OStr string

datatype column = NumCol "pyfloat list" | StrCol "ocell list" | TimeCol "int option list"

datatype index = DatetimeIndex "int option list" | OtherIndex column

record table =
  tindex :: index
  tindex_name :: "string option"
  tcols :: "(string \<times> column) list"

text \<open>
  What the model takes from Python and pandas without fixing it: the text of a float and
  of a timestamp (\<^verbatim>\<open>str(x)\<close>), the parsing of a string and the conversion of a number by
  \<^verbatim>\<open>pd.to_datetime\<close> (\<open>None\<close>: the conversion raises; \<open>Some None\<close>: \<^verbatim>\<open>NaT\<close>), and the
  calendar arithmetic \<^verbatim>\<open>t - pd.DateOffset(months=m)\<close>.
\<close>

record platform =
  str_float :: "pyfloat \<Rightarrow> string"
  str_time :: "int option \<Rightarrow> string"
  parse_time :: "string \<Rightarrow> int option option"
  float_time :: "pyfloat \<Rightarrow> int option option"
  minus_months :: "int \<Rightarrow> int \<Rightarrow> int"

definition bind_err :: "pyerr + 'a \<Rightarrow> ('a \<Rightarrow> pyerr + 'b) \<Rightarrow> pyerr + 'b" where
  "bind_err m f = (case m of Inl e \<Rightarrow> Inl e | Inr v \<Rightarrow> f v)"

fun col_length :: "column \<Rightarrow> nat" where
  "col_length (NumCol xs) = length xs"
| "col_length (StrCol xs) = length xs"
| "col_length (TimeCol xs) = length xs"

text \<open>The rows at the given positions, in the given order.\<close>

fun col_take :: "nat list \<Rightarrow> column \<Rightarrow> column" where
  "col_take ps (NumCol xs) = NumCol (map ((!) xs) ps)"
| "col_take ps (StrCol xs) = StrCol (map ((!) xs) ps)"
| "col_take ps (TimeCol xs) = TimeCol (map ((!) xs) ps)"

fun index_take :: "nat list \<Rightarrow> index \<Rightarrow> index" where
  "index_take ps (DatetimeIndex ts) = DatetimeIndex (map ((!) ts) ps)"
| "index_take ps (OtherIndex c) = OtherIndex (col_take ps c)"

fun index_length :: "index \<Rightarrow> nat" where
  "index_length (DatetimeIndex ts) = length ts"
| "index_length (OtherIndex c) = col_length c"

definition nrows :: "table \<Rightarrow> nat" where
  "nrows t = index_length (tindex t)"

definition take_rows :: "nat list \<Rightarrow> table \<Rightarrow> table" where
  "take_rows ps t =
     t\<lparr>tindex := index_take ps (tindex t),
       tcols := map (\<lambda>(name, c). (name, col_take ps c)) (tcols t)\<rparr>"

definition columns :: "table \<Rightarrow> string list" where
  "columns t = map fst (tcols t)"

text \<open>\<^verbatim>\<open>df[name] = c\<close>: replaces the column of that name, or appends a new last column.\<close>

definition set_col :: "table \<Rightarrow> string \<Rightarrow> column \<Rightarrow> table" where
  "set_col t name c =
     (if name \<in> set (columns t)
      then t\<lparr>tcols := map (\<lambda>(k, old). if k = name then (k, c) else (k, old)) (tcols t)\<rparr>
      else t\<lparr>tcols := tcols t @ [(name, c)]\<rparr>)"

text \<open>
  \<^verbatim>\<open>series.apply(standardize_cnpj)\<close>: the function is applied to every cell; it turns its
  argument into text with \<^verbatim>\<open>str\<close> unless it is \<^verbatim>\<open>None\<close>.
\<close>

definition ocell_of :: "string option \<Rightarrow> ocell" where
  "ocell_of r = (case r of None \<Rightarrow> ONone | Some s \<Rightarrow> OStr s)"

fun apply_standardize_cnpj :: "platform \<Rightarrow> column \<Rightarrow> column" where
  "apply_standardize_cnpj P (StrCol xs) =
     StrCol (map (\<lambda>c. case c of
                         ONone \<Rightarrow> ocell_of (standardize_cnpj None)
                       | ONaN \<Rightarrow> ocell_of (standardize_cnpj (Some ''nan''))
                       | OStr s \<Rightarrow> ocell_of (standardize_cnpj (Some s))) xs)"
| "apply_standardize_cnpj P (NumCol xs) =
     StrCol (map (\<lambda>x. ocell_of (standardize_cnpj (Some (str_float P x)))) xs)"
| "apply_standardize_cnpj P (TimeCol xs) =
     StrCol (map (\<lambda>t. ocell_of (standardize_cnpj (Some (str_time P t)))) xs)"

text \<open>
  \<^verbatim>\<open>column == text\<close>, row by row.  A number never equals a string; a datetime column
  compares with the string's timestamp when the string parses as one.
\<close>

fun eq_mask :: "platform \<Rightarrow> column \<Rightarrow> string \<Rightarrow> bool list" where
  "eq_mask P (StrCol xs) s = map (\<lambda>c. c = OStr s) xs"
| "eq_mask P (NumCol xs) s = map (\<lambda>x. False) xs"
| "eq_mask P (TimeCol xs) s =
     (case parse_time P s of
        Some (Some t) \<Rightarrow> map (\<lambda>x. x = Some t) xs
      | _ \<Rightarrow> map (\<lambda>x. False) xs)"

definition mask_positions :: "bool list \<Rightarrow> nat list" where
  "mask_positions m = filter (\<lambda>i. m ! i) [0 ..< length m]"

text \<open>\<^verbatim>\<open>pd.to_datetime(column)\<close>; raises \<^verbatim>\<open>ValueError\<close> on a value it cannot convert.\<close>

fun to_datetime :: "platform \<Rightarrow> column \<Rightarrow> pyerr + int option list" where
  "to_datetime P (TimeCol xs) = Inr xs"
| "to_datetime P (StrCol xs) =
     (case those (map (\<lambda>c. case c of OStr s \<Rightarrow> parse_time P s | _ \<Rightarrow> Some None) xs) of
        None \<Rightarrow> Inl ValueError
      | Some ts \<Rightarrow> Inr ts)"
| "to_datetime P (NumCol xs) =
     (case those (map (float_time P) xs) of
        None \<Rightarrow> Inl ValueError
      | Some ts \<Rightarrow> Inr ts)"

text \<open>
  \<^verbatim>\<open>sort_index()\<close> on a datetime index: ascending, \<^verbatim>\<open>NaT\<close> last.  Rows with equal
  labels keep their order here; pandas' default sort does not promise an order among
  equal labels, and the statements below do not depend on one.  Any other index is left
  as it is here: the functions below sort only after making the index a
  \<^verbatim>\<open>DatetimeIndex\<close>.
\<close>

definition sorted_positions :: "int option list \<Rightarrow> nat list" where
  "sorted_positions ts =
     sort_key (\<lambda>i. the (ts ! i)) (filter (\<lambda>i. ts ! i \<noteq> None) [0 ..< length ts])
       @ filter (\<lambda>i. ts ! i = None) [0 ..< length ts]"

definition sort_index :: "table \<Rightarrow> table" where
  "sort_index t =
     (case tindex t of
        DatetimeIndex ts \<Rightarrow> take_rows (sorted_positions ts) t
      | OtherIndex c \<Rightarrow> t)"

text \<open>\<^verbatim>\<open>~index.duplicated(keep='first')\<close>: the first row of every label.\<close>

definition first_positions :: "'a list \<Rightarrow> nat list" where
  "first_positions ts = filter (\<lambda>i. ts ! i \<notin> set (take i ts)) [0 ..< length ts]"

text \<open>A series taken from a table with a datetime index: its labels and its values.\<close>

type_synonym pseries = "int option list \<times> column"

fun notna_positions :: "column \<Rightarrow> nat list" where
  "notna_positions (NumCol xs) = filter (\<lambda>i. xs ! i \<noteq> NaN) [0 ..< length xs]"
| "notna_positions (StrCol xs) =
     filter (\<lambda>i. case xs ! i of OStr s \<Rightarrow> True | _ \<Rightarrow> False) [0 ..< length xs]"
| "notna_positions (TimeCol xs) = filter (\<lambda>i. xs ! i \<noteq> None) [0 ..< length xs]"

definition series_take :: "nat list \<Rightarrow> pseries \<Rightarrow> pseries" where
  "series_take ps s = (map ((!) (fst s)) ps, col_take ps (snd s))"

definition series_dropna :: "pseries \<Rightarrow> pseries" where
  "series_dropna s = series_take (notna_positions (snd s)) s"

text \<open>
  \<^verbatim>\<open>pct_change()\<close> with the default \<^verbatim>\<open>fill_method='pad'\<close>: missing values are filled
  forward, then every value is divided by its predecessor, minus one; the first row has
  no predecessor.  On a column that is not numeric the division raises \<^verbatim>\<open>TypeError\<close>.
\<close>

fun ffill_from :: "pyfloat \<Rightarrow> pyfloat list \<Rightarrow> pyfloat list" where
  "ffill_from prev [] = []"
| "ffill_from prev (x # xs) = (if x = NaN then prev # ffill_from prev xs else x # ffill_from x xs)"

fun pct_change :: "column \<Rightarrow> pyerr + column" where
  "pct_change (NumCol xs) =
     (case ffill_from NaN xs of
        [] \<Rightarrow> Inr (NumCol [])
      | f # fs \<Rightarrow>
          Inr (NumCol (NaN # map2 (\<lambda>cur prev. sub_py (div_py cur prev) (Fin 1)) fs (butlast (f # fs)))))"
| "pct_change (StrCol xs) = Inl TypeError"
| "pct_change (TimeCol xs) = Inl TypeError"

section \<open>Returns extraction (\<^verbatim>\<open>data_loader.get_fund_returns\<close>)\<close>

text \<open>
  The first name of the list that is a column of the table (the \<^verbatim>\<open>for \<dots> break\<close>
  loops over the candidate column names).
\<close>

definition first_column :: "string list \<Rightarrow> table \<Rightarrow> string option" where
  "first_column names t = find (\<lambda>c. c \<in> set (columns t)) names"

text \<open>
  \<^verbatim>\<open>fund_data[name]\<close>: \<^verbatim>\<open>KeyError\<close> when the table has no such column.
\<close>

definition get_col :: "table \<Rightarrow> string \<Rightarrow> pyerr + column" where
  "get_col t name = (case map_of (tcols t) name of None \<Rightarrow> Inl KeyError | Some c \<Rightarrow> Inr c)"

text \<open>
  ``Ensure date index'': unless the index is a \<^verbatim>\<open>DatetimeIndex\<close>, the first column
  becomes the index (\<^verbatim>\<open>set_index\<close> removes it from the columns) and is converted by
  \<^verbatim>\<open>pd.to_datetime\<close>.
\<close>

definition ensure_date_index :: "platform \<Rightarrow> table \<Rightarrow> pyerr + table" where
  "ensure_date_index P t =
     (case tindex t of
        DatetimeIndex ts \<Rightarrow> Inr t
      | OtherIndex c \<Rightarrow>
          (case tcols t of
             [] \<Rightarrow> Inl IndexError
           | (date_col, d) # rest \<Rightarrow>
               bind_err (to_datetime P d)
                 (\<lambda>ts. Inr \<lparr>tindex = DatetimeIndex ts, tindex_name = Some date_col,
                            tcols = rest\<rparr>)))"

definition index_labels :: "table \<Rightarrow> int option list" where
  "index_labels t = (case tindex t of DatetimeIndex ts \<Rightarrow> ts | OtherIndex c \<Rightarrow> [])"

text \<open>
  The end of the function (from ``Remove duplicates''): the first row of every date, the
  emptiness test and the period filter.  A comparison with \<^verbatim>\<open>NaT\<close> is false.
\<close>

definition finish_returns :: "platform \<Rightarrow> pseries \<Rightarrow> int option \<Rightarrow> (pseries \<times> pseries) option" where
  "finish_returns P returns0 period_months =
     (let returns = series_take (first_positions (fst returns0)) returns0
      in if length (fst returns) = 0 then None
         else case period_months of
                None \<Rightarrow> Some (returns, returns)
              | Some m \<Rightarrow>
                  (case last (fst returns) of
                     None \<Rightarrow> Some (series_take [] returns, returns)
                   | Some t \<Rightarrow>
                       (let cutoff_date = minus_months P t m
                        in Some (series_take
                                   (filter (\<lambda>i. case fst returns ! i of
                                                   None \<Rightarrow> False
                                                 | Some d \<Rightarrow> cutoff_date \<le> d)
                                      [0 ..< length (fst returns)])
                                   returns,
                                 returns))))"

text \<open>
  The body of the function from ``Filter by CNPJ'' on; it reads the table and does not
  change it.
\<close>

definition extract_returns ::
  "platform \<Rightarrow> table \<Rightarrow> string \<Rightarrow> int option \<Rightarrow> pyerr + (pseries \<times> pseries) option" where
  "extract_returns P fund_details cnpj_standard period_months =
     bind_err (get_col fund_details ''CNPJ_STANDARD'')
       (\<lambda>key.
          let fund_data = take_rows (mask_positions (eq_mask P key cnpj_standard)) fund_details
          in if nrows fund_data = 0 then Inr None
             else case first_column [''DAILY_RETURN'', ''RENTABILIDADE'', ''RETURN'', ''RET''] fund_data of
                    None \<Rightarrow>
                      (case first_column [''VL_QUOTA'', ''QUOTA'', ''NAV''] fund_data of
                         None \<Rightarrow> Inr None
                       | Some quota_col \<Rightarrow>
                           bind_err (ensure_date_index P fund_data)
                             (\<lambda>fd. let fund_data = sort_index fd
                                   in bind_err (get_col fund_data quota_col)
                                        (\<lambda>q. bind_err (pct_change q)
                                           (\<lambda>r. Inr (finish_returns P
                                                        (series_dropna (index_labels fund_data, r))
                                                        period_months)))))
                  | Some returns_col \<Rightarrow>
                      bind_err (ensure_date_index P fund_data)
                        (\<lambda>fd. let fund_data = sort_index fd
                              in bind_err (get_col fund_data returns_col)
                                   (\<lambda>r. Inr (finish_returns P
                                                (series_dropna (index_labels fund_data, r))
                                                period_months))))"

text \<open>
  The function takes the caller's table by reference.  The model returns the table as it
  is after the call together with the function's result (\<open>Inl\<close>: an exception;
  \<open>Inr None\<close>: the function returns \<^verbatim>\<open>None\<close>).  The arguments are optional:
  \<open>None\<close> is Python's \<^verbatim>\<open>None\<close>.
\<close>

definition get_fund_returns ::
  "platform \<Rightarrow> table option \<Rightarrow> string option \<Rightarrow> int option
     \<Rightarrow> table option \<times> (pyerr + (pseries \<times> pseries) option)" where
  "get_fund_returns P fund_details cnpj_standard period_months =
     (case fund_details of
        None \<Rightarrow> (fund_details, Inr None)
      | Some fd \<Rightarrow>
          (case cnpj_standard of
             None \<Rightarrow> (fund_details, Inr None)
           | Some cnpj \<Rightarrow>
               if ''CNPJ_STANDARD'' \<notin> set (columns fd)
               then (case map_of (tcols fd) ''CNPJ'' of
                       Some c \<Rightarrow>
                         (let fd' = set_col fd ''CNPJ_STANDARD'' (apply_standardize_cnpj P c)
                          in (Some fd', extract_returns P fd' cnpj period_months))
                     | None \<Rightarrow> (fund_details, Inr None))
               else (fund_details, extract_returns P fd cnpj period_months)))"

section \<open>Flow analysis (\<^verbatim>\<open>data_loader.calculate_fund_flow_metrics\<close>)\<close>

text \<open>
  The numeric fields (\<^verbatim>\<open>VL_PATRIM_LIQ\<close>, \<^verbatim>\<open>NR_COTST\<close>, \<^verbatim>\<open>MOVIMENTACAO\<close>) are read as
  float columns.  A column of another type is outside the model: the model answers
  \<^verbatim>\<open>TypeError\<close> there, whatever exception the code raises on it (\<^verbatim>\<open>int('b')\<close>, for
  one, raises \<^verbatim>\<open>ValueError\<close>).
\<close>

definition num_col :: "table \<Rightarrow> string \<Rightarrow> pyerr + pyfloat list" where
  "num_col t name =
     (case map_of (tcols t) name of
        None \<Rightarrow> Inl KeyError
      | Some (NumCol xs) \<Rightarrow> Inr xs
      | Some _ \<Rightarrow> Inl TypeError)"

text \<open>\<^verbatim>\<open>series.iloc[-k]\<close> for \<open>k \<ge> 1\<close>: the \<open>k\<close>-th value from the end.\<close>

definition iloc_neg :: "pyfloat list \<Rightarrow> nat \<Rightarrow> pyerr + pyfloat" where
  "iloc_neg xs k = (if 1 \<le> k \<and> k \<le> length xs then Inr (xs ! (length xs - k)) else Inl IndexError)"

text \<open>\<^verbatim>\<open>series.iloc[-k:].sum()\<close>: the sum of the last \<open>k\<close> values, missing values skipped.\<close>

definition tail_sum :: "pyfloat list \<Rightarrow> nat \<Rightarrow> pyfloat" where
  "tail_sum xs k = foldl add_py (Fin 0) (filter (\<lambda>x. x \<noteq> NaN) (drop (length xs - k) xs))"

text \<open>\<^verbatim>\<open>int(x)\<close> of a float: truncation towards zero; NaN and the infinities raise.\<close>

definition trunc :: "real \<Rightarrow> int" where
  "trunc r = (if 0 \<le> r then \<lfloor>r\<rfloor> else \<lceil>r\<rceil>)"

fun py_int :: "pyfloat \<Rightarrow> pyerr + int" where
  "py_int (Fin r) = Inr (trunc r)"
| "py_int NaN = Inl ValueError"
| "py_int PosInf = Inl OverflowError"
| "py_int NegInf = Inl OverflowError"

text \<open>\<^verbatim>\<open>int(x) if x else 0\<close>: only zero is falsy.\<close>

definition int_or_zero :: "pyfloat \<Rightarrow> pyerr + int" where
  "int_or_zero x = (if x = Fin 0 then Inr 0 else py_int x)"

text \<open>
  \<^verbatim>\<open>safe_pct(value, base)\<close>; the base is \<^verbatim>\<open>None\<close> when its column is absent.
\<close>

definition safe_pct :: "pyfloat \<Rightarrow> pyfloat option \<Rightarrow> pyfloat" where
  "safe_pct v base =
     (case base of
        None \<Rightarrow> Fin 0
      | Some b \<Rightarrow> if b \<noteq> Fin 0 then mul_py (div_py v b) (Fin 100) else Fin 0)"

record flow =
  aum :: "pyfloat option"
  shareholders :: "int option"
  daily_transfers :: pyfloat
  daily_transfers_pct :: pyfloat
  daily_investors :: int
  daily_investors_pct :: pyfloat
  weekly_transfers :: pyfloat
  weekly_transfers_pct :: pyfloat
  weekly_investors :: int
  weekly_investors_pct :: pyfloat
  monthly_transfers :: pyfloat
  monthly_transfers_pct :: pyfloat
  monthly_investors :: int
  monthly_investors_pct :: pyfloat

text \<open>
  The figures, from ``Check required columns'' to the end of the function, on the
  prepared table \<^verbatim>\<open>fund_data\<close> (filtered, de-duplicated, sorted by date).
\<close>

definition flow_figures :: "table \<Rightarrow> pyerr + flow option" where
  "flow_figures fund_data =
     (let n = nrows fund_data;
          has_aum = ''VL_PATRIM_LIQ'' \<in> set (columns fund_data);
          has_shareholders = ''NR_COTST'' \<in> set (columns fund_data);
          has_transfers = ''MOVIMENTACAO'' \<in> set (columns fund_data)
      in if \<not> has_aum \<and> \<not> has_shareholders then Inr None
         else
           bind_err (if has_aum
                     then bind_err (num_col fund_data ''VL_PATRIM_LIQ'')
                            (\<lambda>a. bind_err (iloc_neg a 1) (\<lambda>v. Inr (Some v)))
                     else Inr None)
           (\<lambda>current_aum.
           bind_err (if has_shareholders then num_col fund_data ''NR_COTST'' else Inr [])
           (\<lambda>cot.
           bind_err (if has_shareholders
                     then bind_err (iloc_neg cot 1)
                            (\<lambda>v. bind_err (py_int v) (\<lambda>k. Inr (Some k)))
                     else Inr None)
           (\<lambda>current_shareholders.
           bind_err (if has_transfers then num_col fund_data ''MOVIMENTACAO'' else Inr [])
           (\<lambda>mov.
           bind_err (if has_transfers then iloc_neg mov 1 else Inr (Fin 0))
           (\<lambda>daily_transfers.
           bind_err (if has_shareholders \<and> 2 \<le> n
                     then bind_err (iloc_neg cot 1)
                            (\<lambda>a. bind_err (iloc_neg cot 2) (\<lambda>b. Inr (sub_py a b)))
                     else Inr (Fin 0))
           (\<lambda>daily_investors_change.
           let weekly_transfers =
                 (if 5 \<le> n \<and> has_transfers then tail_sum mov 5 else daily_transfers)
           in
           bind_err (if 6 \<le> n \<and> has_shareholders
                     then bind_err (iloc_neg cot 1)
                            (\<lambda>a. bind_err (iloc_neg cot 6) (\<lambda>b. Inr (sub_py a b)))
                     else Inr daily_investors_change)
           (\<lambda>weekly_investors_change.
           let monthly_transfers =
                 (if 22 \<le> n \<and> has_transfers then tail_sum mov 22 else weekly_transfers)
           in
           bind_err (if 23 \<le> n \<and> has_shareholders
                     then bind_err (iloc_neg cot 1)
                            (\<lambda>a. bind_err (iloc_neg cot 23) (\<lambda>b. Inr (sub_py a b)))
                     else Inr weekly_investors_change)
           (\<lambda>monthly_investors_change.
           let sh_base = map_option (\<lambda>k. Fin (real_of_int k)) current_shareholders
           in
           bind_err (int_or_zero daily_investors_change)
           (\<lambda>di.
           bind_err (int_or_zero weekly_investors_change)
           (\<lambda>wi.
           bind_err (int_or_zero monthly_investors_change)
           (\<lambda>mi.
             Inr (Some
               \<lparr>aum = current_aum,
                shareholders = current_shareholders,
                daily_transfers = daily_transfers,
                daily_transfers_pct = safe_pct daily_transfers current_aum,
                daily_investors = di,
                daily_investors_pct = safe_pct daily_investors_change sh_base,
                weekly_transfers = weekly_transfers,
                weekly_transfers_pct = safe_pct weekly_transfers current_aum,
                weekly_investors = wi,
                weekly_investors_pct = safe_pct weekly_investors_change sh_base,
                monthly_transfers = monthly_transfers,
                monthly_transfers_pct = safe_pct monthly_transfers current_aum,
                monthly_investors = mi,
                monthly_investors_pct = safe_pct monthly_investors_change sh_base\<rparr>)))))))))))))"

text \<open>
  ``Ensure date index'' of this function: \<^verbatim>\<open>reset_index()\<close> turns the old index into a
  first column (named after the index, or \<^verbatim>\<open>index\<close>, or \<^verbatim>\<open>level_0\<close> when a column
  \<^verbatim>\<open>index\<close> exists; \<^verbatim>\<open>ValueError\<close> when the name is taken), then the column that was
  first before is converted by \<^verbatim>\<open>pd.to_datetime\<close> and becomes the index.
\<close>

definition reset_then_set_index :: "platform \<Rightarrow> table \<Rightarrow> pyerr + table" where
  "reset_then_set_index P t =
     (case tindex t of
        DatetimeIndex ts \<Rightarrow> Inr t
      | OtherIndex c \<Rightarrow>
          (case tcols t of
             [] \<Rightarrow> Inl IndexError
           | (date_col, d) # rest \<Rightarrow>
               (let old_name =
                      (case tindex_name t of
                         Some nm \<Rightarrow> nm
                       | None \<Rightarrow> if ''index'' \<in> set (columns t) then ''level_0'' else ''index'')
                in if old_name \<in> set (columns t) then Inl ValueError
                   else bind_err (to_datetime P d)
                          (\<lambda>ts. Inr \<lparr>tindex = DatetimeIndex ts, tindex_name = Some date_col,
                                     tcols = (old_name, c) # rest\<rparr>))))"

text \<open>
  \<^verbatim>\<open>sort_values('NR_COTST', ascending=False)\<close>: largest first, missing values last.
  Rows with equal values keep their order here; pandas' default sort does not promise an
  order among equal values, and the statements below do not depend on one.
\<close>

definition descending_positions :: "pyfloat list \<Rightarrow> nat list" where
  "descending_positions xs =
     filter (\<lambda>i. xs ! i = PosInf) [0 ..< length xs]
       @ sort_key (\<lambda>i. case xs ! i of Fin r \<Rightarrow> - r | _ \<Rightarrow> 0)
           (filter (\<lambda>i. case xs ! i of Fin r \<Rightarrow> True | _ \<Rightarrow> False) [0 ..< length xs])
       @ filter (\<lambda>i. xs ! i = NegInf) [0 ..< length xs]
       @ filter (\<lambda>i. xs ! i = NaN) [0 ..< length xs]"

text \<open>
  ``Handle duplicates'': only when the table has a shareholder column; each date then
  keeps its row with the most shareholders.
\<close>

definition handle_duplicates :: "table \<Rightarrow> pyerr + table" where
  "handle_duplicates t =
     (if ''NR_COTST'' \<in> set (columns t)
      then bind_err (num_col t ''NR_COTST'')
             (\<lambda>cot. let sorted_t = take_rows (descending_positions cot) t
                    in Inr (take_rows (first_positions (index_labels sorted_t)) sorted_t))
      else Inr t)"

text \<open>
  The function works on a copy of the filtered rows (\<^verbatim>\<open>.copy()\<close>): the caller's table
  is not changed and only the result is returned.
\<close>

definition calculate_fund_flow_metrics ::
  "platform \<Rightarrow> table option \<Rightarrow> string option \<Rightarrow> pyerr + flow option" where
  "calculate_fund_flow_metrics P fund_details cnpj_standard =
     (case fund_details of
        None \<Rightarrow> Inr None
      | Some fd \<Rightarrow>
          (case cnpj_standard of
             None \<Rightarrow> Inr None
           | Some cnpj \<Rightarrow>
               (case map_of (tcols fd) ''CNPJ_STANDARD'' of
                  None \<Rightarrow> Inr None
                | Some key \<Rightarrow>
                    (let fund_data = take_rows (mask_positions (eq_mask P key cnpj)) fd
                     in if nrows fund_data = 0 then Inr None
                        else bind_err (reset_then_set_index P fund_data)
                               (\<lambda>fd1. bind_err (handle_duplicates fd1)
                                  (\<lambda>fd2. let fund_data = sort_index fd2
                                         in if nrows fund_data < 2 then Inr None
                                            else flow_figures fund_data))))))"

section \<open>Allocation optimizer (\<^verbatim>\<open>routers.portfolio.optimize_portfolio\<close>)\<close>

text \<open>
  The endpoint answers with a result, raises an \<^verbatim>\<open>HTTPException\<close> (status code and
  detail), or fails with an exception it does not handle.
\<close>

datatype 'a response = Ok 'a | HTTPException nat string | Unhandled pyerr

text \<open>
  What \<^verbatim>\<open>scipy.optimize.minimize\<close> returns, as far as the endpoint reads it: the
  \<^verbatim>\<open>success\<close> flag, the vector \<^verbatim>\<open>x\<close> (one weight per asset, as the initial guess has)
  and the iteration count \<^verbatim>\<open>nit\<close>.
\<close>

record solver_result =
  res_success :: bool
  res_x :: "real list"
  res_nit :: nat

text \<open>The response model \<^verbatim>\<open>OptimizationResult\<close>.\<close>

record optimization_result =
  weights :: "(string \<times> pyfloat) list"
  expected_return :: pyfloat
  expected_risk :: pyfloat
  sharpe_ratio :: pyfloat
  status :: string
  iterations :: "nat option"

text \<open>\<^verbatim>\<open>d[k] = v\<close> on a dictionary in insertion order.\<close>

definition dict_set :: "('k \<times> 'v) list \<Rightarrow> 'k \<Rightarrow> 'v \<Rightarrow> ('k \<times> 'v) list" where
  "dict_set d k v =
     (if k \<in> fst ` set d then map (\<lambda>(k', v'). if k' = k then (k', v) else (k', v')) d
      else d @ [(k, v)])"

text \<open>
  Column means and sample covariances (\<^verbatim>\<open>DataFrame.mean()\<close>, \<^verbatim>\<open>DataFrame.cov()\<close> with
  \<^verbatim>\<open>ddof = 1\<close>) of a frame without missing values; the endpoint computes them on at
  least 252 rows.
\<close>

definition col_values :: "string list \<times> ('d \<times> real list) list \<Rightarrow> nat \<Rightarrow> real list" where
  "col_values df j = map (\<lambda>(t, vs). vs ! j) (snd df)"

definition avg :: "real list \<Rightarrow> real" where
  "avg xs = sum_list xs / real (length xs)"

definition covariance :: "real list \<Rightarrow> real list \<Rightarrow> real" where
  "covariance xs ys =
     sum_list (map2 (\<lambda>a b. (a - avg xs) * (b - avg ys)) xs ys) / (real (length xs) - 1)"

text \<open>\<^verbatim>\<open>np.dot\<close> of two vectors and \<^verbatim>\<open>np.sqrt\<close> on floats.\<close>

definition dot_py :: "pyfloat list \<Rightarrow> pyfloat list \<Rightarrow> pyfloat" where
  "dot_py a b = foldl add_py (Fin 0) (map2 mul_py a b)"

fun sqrt_py :: "pyfloat \<Rightarrow> pyfloat" where
  "sqrt_py (Fin v) = np_sqrt v"
| "sqrt_py PosInf = PosInf"
| "sqrt_py NegInf = NaN"
| "sqrt_py NaN = NaN"

text \<open>
  The end of the endpoint, from \<^verbatim>\<open>optimal_weights = result.x\<close>: weights below the
  threshold are set to zero, the vector is divided by its sum (\<open>0 / 0\<close> is NaN on NumPy
  arrays), the metrics are computed from it and the weights above zero are reported by
  fund name.
\<close>

definition finish_optimization ::
  "string list \<Rightarrow> real list \<Rightarrow> real list list \<Rightarrow> real list \<Rightarrow> nat \<Rightarrow> optimization_result" where
  "finish_optimization fund_names mean_returns cov_matrix result_x result_nit =
     (let threshold = 1 / 100;
          zeroed = map (\<lambda>w. if w < threshold then 0 else w) result_x;
          optimal_weights = map (\<lambda>w. div_py (Fin w) (Fin (sum_list zeroed))) zeroed;
          opt_return = dot_py optimal_weights (map Fin mean_returns);
          opt_vol = sqrt_py (dot_py optimal_weights
                      (map (\<lambda>row. dot_py (map Fin row) optimal_weights) cov_matrix));
          opt_sharpe = (if lt_py (Fin 0) opt_vol then div_py opt_return opt_vol else Fin 0);
          weights_dict = filter (\<lambda>(name, w). lt_py (Fin 0) w) (zip fund_names optimal_weights)
      in \<lparr>weights = weights_dict,
          expected_return = opt_return,
          expected_risk = opt_vol,
          sharpe_ratio = opt_sharpe,
          status = ''success'',
          iterations = Some result_nit\<rparr>)"

text \<open>
  The endpoint.  Its parameters: the solver (\<^verbatim>\<open>minimize(neg_sharpe, initial_weights,
  method='SLSQP', bounds, constraints, maxiter=1000)\<close>, which is determined by the
  annualised means and covariances, the bounds and the initial guess); whether the cache
  holds both tables; for every requested fund name, in order, the series
  \<^verbatim>\<open>get_fund_returns_by_name\<close> gives for it over 36 months (\<open>None\<close>: no series); and the
  request's constraints \<^verbatim>\<open>(min_weight, max_weight)\<close>, if any.
\<close>

definition optimize_portfolio ::
  "(real list \<Rightarrow> real list list \<Rightarrow> (real \<times> real) list \<Rightarrow> real list \<Rightarrow> solver_result)
     \<Rightarrow> bool \<Rightarrow> (string \<times> ('d::linorder) series option) list \<Rightarrow> (real \<times> real) option
     \<Rightarrow> optimization_result response" where
  "optimize_portfolio minimize cache_loaded fund_returns constraints =
     (if \<not> cache_loaded then HTTPException 503 ''Fund data not loaded''
      else
        let returns_dict =
              foldl (\<lambda>d (fund_name, returns).
                       case returns of
                         None \<Rightarrow> d
                       | Some r \<Rightarrow> if 252 \<le> length r then dict_set d fund_name r else d)
                [] fund_returns
        in if length returns_dict < 2
           then HTTPException 400 ''Need at least 2 funds with sufficient data for optimization''
           else case dataframe returns_dict of
                  Inl e \<Rightarrow> Unhandled e
                | Inr df0 \<Rightarrow>
                    (let returns_df = frame_dropna df0
                     in if length (snd returns_df) < 252
                        then HTTPException 400 ''Insufficient overlapping data''
                        else
                          let fund_names = fst returns_df;
                              n_assets = length fund_names;
                              mean_returns =
                                map (\<lambda>j. avg (col_values returns_df j) * 252) [0 ..< n_assets];
                              cov_matrix =
                                map (\<lambda>i. map (\<lambda>j. covariance (col_values returns_df i)
                                                      (col_values returns_df j) * 252)
                                             [0 ..< n_assets])
                                  [0 ..< n_assets];
                              min_weight = (case constraints of None \<Rightarrow> 0 | Some c \<Rightarrow> fst c);
                              max_weight = (case constraints of None \<Rightarrow> 1 | Some c \<Rightarrow> snd c);
                              bounds = replicate n_assets (min_weight, max_weight);
                              initial_weights = replicate n_assets (1 / real n_assets);
                              result = minimize mean_returns cov_matrix bounds initial_weights
                          in if \<not> res_success result
                             then HTTPException 500 ''Optimization failed to converge''
                             else Ok (finish_optimization fund_names mean_returns cov_matrix
                                        (res_x result) (res_nit result))))"

section \<open>Properties of the identifier normalisation\<close>

lemma isdigit_not_sign: "isdigit c \<Longrightarrow> c \<noteq> CHR ''+'' \<and> c \<noteq> CHR ''-''"
  by (auto simp: isdigit_def)

lemma isdigit_zero: "isdigit (CHR ''0'')"
  by (simp add: isdigit_def)

lemma zfill_digits:
  "\<forall>c\<in>set s. isdigit c \<Longrightarrow> length s < w \<Longrightarrow>
     zfill w s = replicate (w - length s) (CHR ''0'') @ s"
  by (cases s) (auto simp: zfill_def dest: isdigit_not_sign)

lemma standardize_cnpj_eq:
  "standardize_cnpj (Some s) =
     Some (let d = filter isdigit s
           in if length d < 14 then replicate (14 - length d) (CHR ''0'') @ d else take 14 d)"
  by (auto simp: standardize_cnpj_def Let_def zfill_digits)

lemma standardize_cnpj_length:
  "standardize_cnpj (Some s) = Some t \<Longrightarrow> length t = 14"
  by (auto simp: standardize_cnpj_eq Let_def split: if_splits)

lemma standardize_cnpj_digits:
  "standardize_cnpj (Some s) = Some t \<Longrightarrow> filter isdigit t = t"
  by (auto simp: standardize_cnpj_eq Let_def isdigit_zero split: if_splits
      intro!: filter_True dest: in_set_takeD)

lemma standardize_cnpj_fixed:
  "length t = 14 \<Longrightarrow> filter isdigit t = t \<Longrightarrow> standardize_cnpj (Some t) = Some t"
  by (simp add: standardize_cnpj_def)

lemma standardize_cnpj_idem: "standardize_cnpj (standardize_cnpj x) = standardize_cnpj x"
proof (cases x)
  case None
  then show ?thesis by (simp add: standardize_cnpj_def)
next
  case (Some s)
  obtain t where t: "standardize_cnpj (Some s) = Some t"
    by (auto simp: standardize_cnpj_eq)
  from standardize_cnpj_fixed [OF standardize_cnpj_length [OF t] standardize_cnpj_digits [OF t]]
  show ?thesis using Some t by simp
qed

text \<open>
  Claim C5.  For a string \<open>s\<close> the result is the digits of \<open>s\<close> (every other character
  removed), padded on the left with zeros to 14 characters when there are fewer than 14 of
  them and cut to the first 14 otherwise; normalising twice is normalising once, for every
  input (also \<^verbatim>\<open>None\<close> and strings without digits); \<^verbatim>\<open>"123"\<close> gives
  \<^verbatim>\<open>"00000000000123"\<close>; twenty characters \<^verbatim>\<open>1\<close> give the first fourteen of them.
\<close>

theorem standardize_cnpj_spec:
  "standardize_cnpj (Some s) =
     Some (let d = filter isdigit s
           in if length d < 14 then replicate (14 - length d) (CHR ''0'') @ d else take 14 d)
   \<and> standardize_cnpj None = None
   \<and> standardize_cnpj (standardize_cnpj x) = standardize_cnpj x
   \<and> standardize_cnpj (Some ''123'') = Some ''00000000000123''
   \<and> standardize_cnpj (Some (replicate 20 (CHR ''1''))) = Some (take 14 (replicate 20 (CHR ''1'')))"
proof -
  have "standardize_cnpj (Some ''123'') = Some ''00000000000123''"
    by code_simp
  moreover have "standardize_cnpj (Some (replicate 20 (CHR ''1'')))
      = Some (take 14 (replicate 20 (CHR ''1'')))"
    by code_simp
  moreover have "standardize_cnpj None = None"
    by (simp add: standardize_cnpj_def)
  ultimately show ?thesis
    using standardize_cnpj_eq [of s] standardize_cnpj_idem [of x] by simp
qed

text \<open>
  Claim C10.  Every string (every input other than \<^verbatim>\<open>None\<close>) is mapped to a string of
  exactly 14 characters, and a string that holds no digit is mapped to fourteen zeros,
  not to \<^verbatim>\<open>None\<close>.
\<close>

theorem standardize_cnpj_fourteen:
  "(\<exists>t. standardize_cnpj (Some s) = Some t \<and> length t = 14)
   \<and> ((\<forall>c\<in>set s. \<not> isdigit c) \<longrightarrow> standardize_cnpj (Some s) = Some ''00000000000000'')"
proof -
  have zeros: "replicate 14 (CHR ''0'') = ''00000000000000''"
    by code_simp
  have "filter isdigit s = [] \<Longrightarrow> standardize_cnpj (Some s) = Some ''00000000000000''"
    by (simp add: standardize_cnpj_def zfill_def zeros)
  moreover have "(\<forall>c\<in>set s. \<not> isdigit c) \<Longrightarrow> filter isdigit s = []"
    by (simp add: filter_empty_conv)
  moreover obtain t where "standardize_cnpj (Some s) = Some t"
    by (auto simp: standardize_cnpj_eq)
  ultimately show ?thesis
    using standardize_cnpj_length by blast
qed

theorem standardize_cnpj_fourteen_witness:
  "(\<exists>t. standardize_cnpj (Some ''n/a'') = Some t \<and> length t = 14)
   \<and> standardize_cnpj (Some ''n/a'') = Some ''00000000000000''"
proof -
  have "\<forall>c\<in>set ''n/a''. \<not> isdigit c"
    by (simp add: isdigit_def)
  then show ?thesis
    using standardize_cnpj_fourteen [of "''n/a''"] by blast
qed

section \<open>Properties of the frequency resampler\<close>

lemma take_drop_nth: "k + n \<le> length xs \<Longrightarrow> take n (drop k xs) = map ((!) xs) [k ..< k + n]"
  by (auto simp: list_eq_iff_nth_eq)

lemma dropna_append: "dropna (xs @ ys) = dropna xs @ dropna ys"
  by (simp add: dropna_def)

lemma dropna_None: "dropna (map (\<lambda>i. (g i, None)) is) = []"
  by (induction "is") (auto simp: dropna_def)

lemma dropna_Some: "dropna (map (\<lambda>i. (g i, Some (h i))) is) = map (\<lambda>i. (g i, h i)) is"
  by (induction "is") (auto simp: dropna_def)

lemma rolling_dropna:
  assumes "0 < w"
  shows "dropna (rolling_apply w f s) =
     map (\<lambda>i. (fst (s ! i), f (map (\<lambda>j. snd (s ! j)) [i + 1 - w ..< i + 1]))) [w - 1 ..< length s]"
proof (cases "w - 1 \<le> length s")
  case True
  have split: "[0 ..< length s] = [0 ..< w - 1] @ [w - 1 ..< length s]"
    using True by (metis le0 upt_add_eq_append le_add_diff_inverse)
  have a: "map (\<lambda>i. (fst (s ! i), if i + 1 < w then None
               else Some (f (map snd (take w (drop (i + 1 - w) s)))))) [0 ..< w - 1]
        = map (\<lambda>i. (fst (s ! i), None)) [0 ..< w - 1]"
    by (rule map_cong) auto
  have b: "map (\<lambda>i. (fst (s ! i), if i + 1 < w then None
               else Some (f (map snd (take w (drop (i + 1 - w) s)))))) [w - 1 ..< length s]
        = map (\<lambda>i. (fst (s ! i), Some (f (map (\<lambda>j. snd (s ! j)) [i + 1 - w ..< i + 1]))))
            [w - 1 ..< length s]"
  proof (rule map_cong [OF refl])
    fix i assume "i \<in> set [w - 1 ..< length s]"
    then have i: "w - 1 \<le> i" "i < length s" by auto
    then have "(i + 1 - w) + w \<le> length s" using assms by linarith
    from take_drop_nth [OF this]
    have "take w (drop (i + 1 - w) s) = map ((!) s) [i + 1 - w ..< i + 1]"
      using i assms by (simp add: algebra_simps)
    then show "(fst (s ! i), if i + 1 < w then None
               else Some (f (map snd (take w (drop (i + 1 - w) s)))))
       = (fst (s ! i), Some (f (map (\<lambda>j. snd (s ! j)) [i + 1 - w ..< i + 1])))"
      using i by (simp add: comp_def)
  qed
  show ?thesis
    unfolding rolling_apply_def
    by (subst split) (simp only: map_append dropna_append a b dropna_None dropna_Some append_Nil)
next
  case False
  have "map (\<lambda>i. (fst (s ! i), if i + 1 < w then None
               else Some (f (map snd (take w (drop (i + 1 - w) s)))))) [0 ..< length s]
        = map (\<lambda>i. (fst (s ! i), None)) [0 ..< length s]"
    by (rule map_cong) (use False in auto)
  then show ?thesis using False
    unfolding rolling_apply_def by (simp only: dropna_None) simp
qed

text \<open>
  Claim C6.  The series returned for \<^verbatim>\<open>'daily'\<close> is the input.  The series returned for
  \<^verbatim>\<open>'weekly'\<close> has one point for every input position from the fifth on (positions
  \<open>4 \<le> i < length s\<close>, so the leading four points are dropped), labelled with the input's
  label at that position, whose value is the product of \<open>1 + r\<close> over the five most recent
  returns (positions \<open>i - 4, \<dots>, i\<close>) minus one.  \<^verbatim>\<open>'monthly'\<close> is the same with a
  window of 22.
\<close>

theorem get_returns_for_frequency_rolling:
  "fst (get_returns_for_frequency s ''daily'') = s
   \<and> fst (get_returns_for_frequency s ''weekly'') =
       map (\<lambda>i. (fst (s ! i), (\<Prod>j\<leftarrow>[i - 4 ..< i + 1]. 1 + snd (s ! j)) - 1)) [4 ..< length s]
   \<and> length (fst (get_returns_for_frequency s ''weekly'')) = length s - 4
   \<and> fst (get_returns_for_frequency s ''monthly'') =
       map (\<lambda>i. (fst (s ! i), (\<Prod>j\<leftarrow>[i - 21 ..< i + 1]. 1 + snd (s ! j)) - 1)) [21 ..< length s]
   \<and> length (fst (get_returns_for_frequency s ''monthly'')) = length s - 21"
  by (simp add: get_returns_for_frequency_def Let_def rolling_dropna compound_def comp_def)

section \<open>Properties of the Sortino ratio\<close>

lemma ann_nonneg:
  assumes "r \<noteq> []" "0 < ppy" "0 \<le> prod_list (map (\<lambda>x. 1 + x) r)"
  shows "annualized_return r ppy =
     Inr (Fin (prod_list (map (\<lambda>x. 1 + x) r) powr (real_of_int ppy / real (length r)) - 1))"
proof -
  have y: "0 < real (length r) / real_of_int ppy" using assms by simp
  have "py_pow (prod_list (map (\<lambda>x. 1 + x) r)) (real_of_int ppy / real (length r))
      = Fin (prod_list (map (\<lambda>x. 1 + x) r) powr (real_of_int ppy / real (length r)))"
    using assms by (auto simp: py_pow_def)
  then show ?thesis
    using assms y by (auto simp: annualized_return_def Let_def sub_py_def divide_le_0_iff)
qed

text \<open>
  What the function computes, for any target, on a series of at least two returns with a
  positive number of periods per year and a non-negative compounded growth factor (so
  that the annualised return is a number).
\<close>

lemma sortino_ratio_as_coded:
  assumes "2 \<le> length r" "0 < ppy" "0 \<le> prod_list (map (\<lambda>x. 1 + x) r)"
  shows "sortino_ratio r target ppy =
     Inr (let ann_ret = prod_list (map (\<lambda>x. 1 + x) r) powr (real_of_int ppy / real (length r)) - 1;
              down = filter (\<lambda>x. x < target) r;
              dd = sqrt (sum_list (map (\<lambda>x. x\<^sup>2) down) / real (length down))
                     * sqrt (real_of_int ppy)
          in if down = [] \<or> dd = 0 then (if target < ann_ret then PosInf else Fin 0)
             else Fin ((ann_ret - target) / dd))"
proof -
  have ne: "r \<noteq> []" using assms by auto
  have sq: "0 \<le> sum_list (map (\<lambda>x. x\<^sup>2) xs) / real (length xs)" for xs :: "real list"
    by (intro divide_nonneg_nonneg sum_list_nonneg) auto
  have np1: "np_sqrt (sum_list (map (\<lambda>x. x\<^sup>2) xs) / real (length xs))
      = Fin (sqrt (sum_list (map (\<lambda>x. x\<^sup>2) xs) / real (length xs)))" for xs :: "real list"
    using sq [of xs] by (simp add: np_sqrt_def not_less)
  have np2: "np_sqrt (real_of_int ppy) = Fin (sqrt (real_of_int ppy))"
    using assms by (simp add: np_sqrt_def)
  have two: "\<not> length r < 2" using assms by simp
  show ?thesis
    unfolding sortino_ratio_def Let_def ann_nonneg [OF ne assms(2,3)] np1 np2
    using two by (simp add: sub_py_def)
qed

lemma downside_squares_pos:
  fixes down :: "real list"
  assumes "down \<noteq> []" "\<forall>x\<in>set down. x < 0"
  shows "0 < sum_list (map (\<lambda>x. x\<^sup>2) down)"
proof -
  obtain y ys where d: "down = y # ys" using assms(1) by (cases down) auto
  have y: "0 < y\<^sup>2" using assms(2) d by simp
  have ys: "0 \<le> sum_list (map (\<lambda>x. x\<^sup>2) ys)"
    by (intro sum_list_nonneg) auto
  have "0 < y\<^sup>2 + sum_list (map (\<lambda>x. x\<^sup>2) ys)"
    using y ys by (rule add_pos_nonneg)
  then show ?thesis by (simp add: d)
qed

text \<open>
  Claim C3, amended in the one point its counterexample forces.  For a series of at least
  two returns and the target 0 (the default, and the only target the application uses),
  with a positive number of periods per year and a non-negative compounded growth factor
  \<open>\<Prod>(1 + r)\<close> (so that the annualised return is a number), the Sortino ratio is the
  annualised return minus the target, divided by the downside deviation
  \<open>sqrt (mean of min (r - target, 0)\<^sup>2) * sqrt periodsPerYear\<close>, where the mean is taken over
  the returns below the target only, not over all observations.  When no return is below
  the target the result is plus infinity if the annualised return exceeds the target and
  zero otherwise.  The statement is silent on targets other than 0.
\<close>

theorem sortino_ratio_formula:
  assumes "2 \<le> length r" "0 < ppy" "0 \<le> prod_list (map (\<lambda>x. 1 + x) r)" "target = 0"
  shows "sortino_ratio r target ppy =
     Inr (let ann_ret = prod_list (map (\<lambda>x. 1 + x) r) powr (real_of_int ppy / real (length r)) - 1;
              down = filter (\<lambda>x. x < target) r;
              dd = sqrt (sum_list (map (\<lambda>x. (min (x - target) 0)\<^sup>2) down) / real (length down))
                     * sqrt (real_of_int ppy)
          in if down = [] then (if target < ann_ret then PosInf else Fin 0)
             else Fin ((ann_ret - target) / dd))"
proof -
  define down where "down = filter (\<lambda>x. x < 0) r"
  have neg: "\<forall>x\<in>set down. x < 0" by (simp add: down_def)
  have sq: "map (\<lambda>x. (min (x - 0) 0)\<^sup>2) down = map (\<lambda>x. x\<^sup>2) down"
    by (rule map_cong) (use neg in \<open>auto simp: min_def\<close>)
  have nz: "down \<noteq> [] \<Longrightarrow>
      sqrt (sum_list (map (\<lambda>x. x\<^sup>2) down) / real (length down)) * sqrt (real_of_int ppy) \<noteq> 0"
    using downside_squares_pos [OF _ neg] assms(2) by auto
  show ?thesis
    unfolding sortino_ratio_as_coded [OF assms(1-3)] assms(4) Let_def down_def [symmetric] sq
    using nz by simp
qed

theorem sortino_ratio_formula_witness:
  "2 \<le> length [- (3 / 4), 7, 0, 0 :: real] \<and> (0::int) < 4
   \<and> 0 \<le> prod_list (map (\<lambda>x. 1 + x) [- (3 / 4), 7, 0, 0 :: real])
   \<and> sortino_ratio [- (3 / 4), 7, 0, 0] 0 4 = Inr (Fin (2 / 3))"
proof -
  have h: "2 \<le> length [- (3 / 4), 7, 0, 0 :: real]" "(0::int) < 4"
    "0 \<le> prod_list (map (\<lambda>x. 1 + x) [- (3 / 4), 7, 0, 0 :: real])" "(0::real) = 0"
    by simp_all
  have s4: "sqrt 4 = 2" using real_sqrt_abs [of 2] by simp
  have s916: "sqrt (9 / 16) = 3 / 4"
    using real_sqrt_abs [of "3 / 4"] by (simp add: power2_eq_square)
  show ?thesis
    using h(1-3) sortino_ratio_formula [OF h]
    by (simp add: Let_def s4 s916 power2_eq_square real_sqrt_divide)
qed

text \<open>
  The claim as the specification states it fails.  On the returns \<open>-3/4, 7, 0, 0\<close> with
  target 0 and four periods per year the annualised return is 1; the code divides by
  \<open>sqrt (9/16) * sqrt 4 = 3/2\<close> and returns \<open>2/3\<close>, while the specification's downside
  deviation \<open>sqrt (mean of min (r - target, 0)\<^sup>2) * sqrt 4\<close> is \<open>3/4\<close>, which would give
  \<open>4/3\<close>.
\<close>

theorem sortino_ratio_counterexample:
  "sortino_ratio [- (3 / 4), 7, 0, 0] 0 4 = Inr (Fin (2 / 3))
   \<and> annualized_return [- (3 / 4), 7, 0, 0] 4 = Inr (Fin 1)
   \<and> (1 - 0) / spec_downside_deviation [- (3 / 4), 7, 0, 0] 0 4 = 4 / 3"
proof -
  have s4: "sqrt 4 = 2" using real_sqrt_abs[of 2] by simp
  have s916: "sqrt (9 / 16) = 3 / 4" using real_sqrt_abs[of "3/4"] by (simp add: power2_eq_square)
  have s964: "sqrt (9 / 64) = 3 / 8" using real_sqrt_abs[of "3/8"] by (simp add: power2_eq_square)
  have a: "annualized_return [- (3 / 4), 7, 0, 0] 4 = Inr (Fin 1)"
    by (simp add: annualized_return_def Let_def py_pow_def sub_py_def)
  have b: "sortino_ratio [- (3 / 4), 7, 0, 0] 0 4 = Inr (Fin (2 / 3))"
    by (simp add: sortino_ratio_def a Let_def np_sqrt_def sub_py_def s4 s916 power2_eq_square real_sqrt_divide)
  have c: "(1 - 0) / spec_downside_deviation [- (3 / 4), 7, 0, 0] 0 4 = 4 / 3"
    by (simp add: spec_downside_deviation_def s4 s964 power2_eq_square)
  show ?thesis using a b c by simp
qed

text \<open>
  For a target other than zero the function squares the returns below the target
  themselves, not their distance to the target, which is not the downside deviation its
  docstring names: on the returns \<open>3/100, 1, 1, 1\<close> with target \<open>4/100\<close> and four periods
  per year it returns 120, where the distance to the target gives 720 with the mean over
  all observations (and 360 with the mean over the one return below the target).  This
  behaviour is not part of the amended claim.
\<close>

lemma sortino_ratio_nonzero_target_example:
  "sortino_ratio [3 / 100, 1, 1, 1] (4 / 100) 4 = Inr (Fin 120)
   \<and> (724 / 100 - 4 / 100) / spec_downside_deviation [3 / 100, 1, 1, 1] (4 / 100) 4 = 720"
proof -
  have s4: "sqrt 4 = 2" using real_sqrt_abs [of 2] by simp
  have s1: "sqrt (9 / 10000) = 3 / 100"
    using real_sqrt_abs [of "3 / 100"] by (simp add: power2_eq_square)
  have s2: "sqrt (1 / 40000) = 1 / 200"
    using real_sqrt_abs [of "1 / 200"] by (simp add: power2_eq_square)
  have h: "2 \<le> length [3 / 100, 1, 1, 1 :: real]" "(0::int) < 4"
    "0 \<le> prod_list (map (\<lambda>x. 1 + x) [3 / 100, 1, 1, 1 :: real])"
    by simp_all
  have a: "sortino_ratio [3 / 100, 1, 1, 1] (4 / 100) 4 = Inr (Fin 120)"
    unfolding sortino_ratio_as_coded [OF h]
    by (simp add: Let_def s4 s1 power2_eq_square real_sqrt_divide)
  have b: "(724 / 100 - 4 / 100) / spec_downside_deviation [3 / 100, 1, 1, 1] (4 / 100) 4 = 720"
    by (simp add: spec_downside_deviation_def s4 s2 power2_eq_square)
  show ?thesis using a b by simp
qed

section \<open>Properties of the portfolio aggregation\<close>

lemma map_nth_fun: "map (\<lambda>i. f (xs ! i)) [0 ..< length xs] = map f xs"
proof -
  have "map (\<lambda>i. f (xs ! i)) [0 ..< length xs] = map f (map ((!) xs) [0 ..< length xs])"
    by (simp add: comp_def)
  then show ?thesis by (simp only: map_nth)
qed

lemma dataframe_single:
  "dataframe [(A, s)] = Inr ([A], map (\<lambda>(t, v). (t, [Some v])) s)"
proof -
  have "map (\<lambda>i. (map fst s ! i, [Some (snd (s ! i))])) [0 ..< length s]
      = map (\<lambda>i. (\<lambda>(t, v). (t, [Some v])) (s ! i)) [0 ..< length s]"
    by (rule map_cong) (auto simp: case_prod_beta)
  also have "\<dots> = map (\<lambda>(t, v). (t, [Some v])) s"
    by (rule map_nth_fun)
  finally show ?thesis
    by (simp add: dataframe_def union_index_def)
qed

lemma dropna_single:
  "frame_dropna ([A], map (\<lambda>(t, v). (t, [Some v])) s) = ([A], map (\<lambda>(t, v). (t, [v])) s)"
  by (induction s) (auto simp: frame_dropna_def List.map_filter_def)

lemma portfolio_single:
  "calculate_portfolio_returns [(A, s)] [(A, 1)] = Inr (if s = [] then None else Some s)"
proof -
  have col: "frame_column ([A], map (\<lambda>(t, v). (t, [v])) s) A = map snd s"
    by (auto simp: frame_column_def)
  have z: "map2 (\<lambda>(t, p) r. (t, p + r)) (map ((\<lambda>(t, vs). (t, 0)) \<circ> (\<lambda>(t, v). (t, [v]))) s) (map snd s) = s"
    by (induction s) auto
  show ?thesis
    by (simp add: calculate_portfolio_returns_def normalize_weights_def dataframe_single
        dropna_single col z)
qed


lemma map_of_nth:
  "distinct (map fst s) \<Longrightarrow> i < length s \<Longrightarrow> map_of s (fst (s ! i)) = Some (snd (s ! i))"
  by (metis map_of_is_SomeI nth_mem prod.collapse)

lemma strict_sorted_distinct: "sorted_wrt (<) (xs :: 'a::linorder list) \<Longrightarrow> distinct xs \<and> sorted xs"
  by (simp add: strict_sorted_iff)

lemma dropna_join:
  "List.map_filter (\<lambda>(t, vs). map_option (Pair t) (those vs))
       (map (\<lambda>t. (t, [map_of sa t, map_of sb t])) idx)
   = map (\<lambda>t. (t, [the (map_of sa t), the (map_of sb t)]))
       (filter (\<lambda>t. t \<in> fst ` set sa \<and> t \<in> fst ` set sb) idx)"
proof (induction idx)
  case Nil
  then show ?case by (simp add: List.map_filter_def)
next
  case (Cons t idx)
  have a: "map_of sa t = None \<longleftrightarrow> t \<notin> fst ` set sa" by (simp add: map_of_eq_None_iff)
  have b: "map_of sb t = None \<longleftrightarrow> t \<notin> fst ` set sb" by (simp add: map_of_eq_None_iff)
  from Cons show ?case
    using a b by (cases "map_of sa t"; cases "map_of sb t") (auto simp: List.map_filter_def)
qed

lemma common_sorted:
  fixes da db :: "'a::linorder list"
  assumes "sorted_wrt (<) da" "sorted_wrt (<) db"
  shows "filter (\<lambda>t. t \<in> set da \<and> t \<in> set db) (sort (remdups (da @ db)))
       = filter (\<lambda>t. t \<in> set db) da"
proof (rule sorted_distinct_set_unique)
  show "sorted (filter (\<lambda>t. t \<in> set da \<and> t \<in> set db) (sort (remdups (da @ db))))"
    by (simp add: sorted_wrt_filter)
  show "distinct (filter (\<lambda>t. t \<in> set da \<and> t \<in> set db) (sort (remdups (da @ db))))"
    by simp
  show "sorted (filter (\<lambda>t. t \<in> set db) da)"
    using strict_sorted_distinct [OF assms(1)] by (simp add: sorted_wrt_filter)
  show "distinct (filter (\<lambda>t. t \<in> set db) da)"
    using strict_sorted_distinct [OF assms(1)] by simp
  show "set (filter (\<lambda>t. t \<in> set da \<and> t \<in> set db) (sort (remdups (da @ db))))
      = set (filter (\<lambda>t. t \<in> set db) da)"
    by auto
qed

lemma two_frame:
  fixes sa sb :: "('d::linorder) series"
  assumes "sorted_wrt (<) (map fst sa)" "sorted_wrt (<) (map fst sb)"
  shows "\<exists>df. dataframe [(A, sa), (B, sb)] = Inr df
     \<and> frame_dropna df = ([A, B], map (\<lambda>t. (t, [the (map_of sa t), the (map_of sb t)]))
           (filter (\<lambda>t. t \<in> fst ` set sb) (map fst sa)))"
proof (cases "map fst sa = map fst sb")
  case True
  have da: "distinct (map fst sa)" and db: "distinct (map fst sb)"
    using assms strict_sorted_distinct by auto
  have len: "length sb = length sa" using True by (metis length_map)
  have df: "dataframe [(A, sa), (B, sb)]
      = Inr ([A, B], map (\<lambda>i. (map fst sa ! i, [Some (snd (sa ! i)), Some (snd (sb ! i))])) [0 ..< length sa])"
    using True len by (simp add: dataframe_def union_index_def)
  have "List.map_filter (\<lambda>(t, vs). map_option (Pair t) (those vs)) (map (\<lambda>i. (g i, [Some (h i), Some (k i)])) is)
      = map (\<lambda>i. (g i, [h i, k i])) is" for g :: "nat \<Rightarrow> 'd" and h k :: "nat \<Rightarrow> real" and "is"
    by (induction "is") (auto simp: List.map_filter_def)
  then have dn: "frame_dropna ([A, B], map (\<lambda>i. (map fst sa ! i, [Some (snd (sa ! i)), Some (snd (sb ! i))])) [0 ..< length sa])
      = ([A, B], map (\<lambda>i. (map fst sa ! i, [snd (sa ! i), snd (sb ! i)])) [0 ..< length sa])"
    by (simp add: frame_dropna_def)
  have filt: "filter (\<lambda>t. t \<in> fst ` set sb) (map fst sa) = map fst sa"
    using True by (metis filter_True list.set_map)
  have "map (\<lambda>t. (t, [the (map_of sa t), the (map_of sb t)])) (map fst sa)
      = map (\<lambda>i. (map fst sa ! i, [snd (sa ! i), snd (sb ! i)])) [0 ..< length sa]"
  proof (rule nth_equalityI)
    show "length (map (\<lambda>t. (t, [the (map_of sa t), the (map_of sb t)])) (map fst sa))
        = length (map (\<lambda>i. (map fst sa ! i, [snd (sa ! i), snd (sb ! i)])) [0 ..< length sa])"
      by simp
  next
    fix i assume "i < length (map (\<lambda>t. (t, [the (map_of sa t), the (map_of sb t)])) (map fst sa))"
    then have i: "i < length sa" by simp
    have "fst (sa ! i) = fst (sb ! i)" using True i len by (metis nth_map)
    then have "map_of sb (fst (sa ! i)) = Some (snd (sb ! i))"
      using map_of_nth [OF db, of i] i len by simp
    then show "map (\<lambda>t. (t, [the (map_of sa t), the (map_of sb t)])) (map fst sa) ! i
        = map (\<lambda>i. (map fst sa ! i, [snd (sa ! i), snd (sb ! i)])) [0 ..< length sa] ! i"
      using i map_of_nth [OF da i] by simp
  qed
  then show ?thesis using df dn filt by simp
next
  case False
  have da: "distinct (map fst sa)" and db: "distinct (map fst sb)"
    using assms strict_sorted_distinct by auto
  define idx where "idx = sort (remdups (map fst sa @ map fst sb))"
  have u: "union_index [map fst sa, map fst sb] = Inr idx"
    using False da db by (auto simp: union_index_def idx_def)
  have ne: "\<not> (map fst sa = idx \<and> map fst sb = idx)" using False by auto
  have df: "dataframe [(A, sa), (B, sb)] = Inr ([A, B], map (\<lambda>t. (t, [map_of sa t, map_of sb t])) idx)"
    using u ne by (auto simp: dataframe_def)
  have "filter (\<lambda>t. t \<in> fst ` set sa \<and> t \<in> fst ` set sb) idx
      = filter (\<lambda>t. t \<in> fst ` set sb) (map fst sa)"
    using common_sorted [OF assms] by (simp add: idx_def)
  then show ?thesis
    using df by (simp add: frame_dropna_def dropna_join)
qed

lemma map2_weighted:
  "map2 (\<lambda>(t, p) r. (t, p + r * w)) (map (\<lambda>t. (t, f t)) xs) (map h xs)
   = map (\<lambda>t. (t, f t + h t * w)) xs"
  by (induction xs) auto

lemma portfolio_two:
  fixes sa sb :: "('d::linorder) series"
  assumes "A \<noteq> B" "sorted_wrt (<) (map fst sa)" "sorted_wrt (<) (map fst sb)"
  shows "normalize_weights [(A, 1), (B, 1)] = Some [(A, 1 / 2), (B, 1 / 2)]
     \<and> calculate_portfolio_returns [(A, sa), (B, sb)] [(A, 1), (B, 1)] =
        Inr (let common = filter (\<lambda>t. t \<in> fst ` set sb) (map fst sa)
             in if common = [] then None
                else Some (map (\<lambda>t. (t, 1 / 2 * the (map_of sa t) + 1 / 2 * the (map_of sb t))) common))"
proof -
  define common where "common = filter (\<lambda>t. t \<in> fst ` set sb) (map fst sa)"
  have nw: "normalize_weights [(A, 1), (B, 1)] = Some [(A, 1 / 2), (B, 1 / 2)]"
    by (simp add: normalize_weights_def)
  obtain df where df: "dataframe [(A, sa), (B, sb)] = Inr df"
    and dn: "frame_dropna df = ([A, B], map (\<lambda>t. (t, [the (map_of sa t), the (map_of sb t)])) common)"
    using two_frame [OF assms(2,3)] unfolding common_def by blast
  have ca: "frame_column ([A, B], map (\<lambda>t. (t, [the (map_of sa t), the (map_of sb t)])) common) A
      = map (\<lambda>t. the (map_of sa t)) common"
    by (simp add: frame_column_def comp_def)
  have cb: "frame_column ([A, B], map (\<lambda>t. (t, [the (map_of sa t), the (map_of sb t)])) common) B
      = map (\<lambda>t. the (map_of sb t)) common"
    using assms(1) by (simp add: frame_column_def comp_def)
  have z: "map (\<lambda>(t, vs). (t, 0::real)) (map (\<lambda>t. (t, [the (map_of sa t), the (map_of sb t)])) common)
      = map (\<lambda>t. (t, 0)) common"
    by simp
  have "calculate_portfolio_returns [(A, sa), (B, sb)] [(A, 1), (B, 1)] =
      (if common = [] then Inr None
       else Inr (Some (map (\<lambda>t. (t, 0 + the (map_of sa t) * (1 / 2) + the (map_of sb t) * (1 / 2))) common)))"
    unfolding calculate_portfolio_returns_def nw df
    by (simp add: dn Let_def ca cb z map2_weighted del: map_map)
  then show ?thesis
    using nw by (simp add: common_def Let_def algebra_simps)
qed

text \<open>
  Claim C7.  A single fund with weight 1.0 gives back that fund's series, label by label
  and value by value (for the empty series, whose joined date range is empty, the function
  returns \<^verbatim>\<open>None\<close>).  For two funds \<open>A \<noteq> B\<close> whose series are strictly increasing in
  their dates, the weights \<open>{A: 1, B: 1}\<close> are normalised to one half each, and the result
  is \<open>1/2 * seriesA + 1/2 * seriesB\<close> on the dates the two series share, in date order
  (\<^verbatim>\<open>None\<close> when they share no date).
\<close>

theorem calculate_portfolio_returns_spec:
  fixes s sa sb :: "('d::linorder) series"
  assumes "A \<noteq> B" "sorted_wrt (<) (map fst sa)" "sorted_wrt (<) (map fst sb)"
  shows "calculate_portfolio_returns [(F, s)] [(F, 1)] = Inr (if s = [] then None else Some s)
     \<and> normalize_weights [(A, 1), (B, 1)] = Some [(A, 1 / 2), (B, 1 / 2)]
     \<and> calculate_portfolio_returns [(A, sa), (B, sb)] [(A, 1), (B, 1)] =
        Inr (let common = filter (\<lambda>t. t \<in> fst ` set sb) (map fst sa)
             in if common = [] then None
                else Some (map (\<lambda>t. (t, 1 / 2 * the (map_of sa t) + 1 / 2 * the (map_of sb t)))
                             common))"
  using portfolio_single [of F s] portfolio_two [OF assms] by simp

theorem calculate_portfolio_returns_spec_witness:
  "''A'' \<noteq> ''B''
   \<and> sorted_wrt (<) (map fst [(1 :: int, 1 / 10 :: real), (2, 2 / 10), (3, 3 / 10)])
   \<and> sorted_wrt (<) (map fst [(2 :: int, 4 / 10 :: real), (3, 0), (4, 1)])
   \<and> calculate_portfolio_returns [(''A'', [(1 :: int, 1 / 10), (2, 2 / 10), (3, 3 / 10)])]
        [(''A'', 1)] = Inr (Some [(1, 1 / 10), (2, 2 / 10), (3, 3 / 10)])
   \<and> calculate_portfolio_returns
        [(''A'', [(1 :: int, 1 / 10), (2, 2 / 10), (3, 3 / 10)]),
         (''B'', [(2, 4 / 10), (3, 0), (4, 1)])]
        [(''A'', 1), (''B'', 1)] = Inr (Some [(2, 3 / 10), (3, 15 / 100)])"
proof -
  have h: "''A'' \<noteq> ''B''"
    "sorted_wrt (<) (map fst [(1 :: int, 1 / 10 :: real), (2, 2 / 10), (3, 3 / 10)])"
    "sorted_wrt (<) (map fst [(2 :: int, 4 / 10 :: real), (3, 0), (4, 1)])"
    by simp_all
  show ?thesis
    using h calculate_portfolio_returns_spec [OF h,
        of "''A''" "[(1 :: int, 1 / 10), (2, 2 / 10), (3, 3 / 10)]"]
    by (simp add: Let_def)
qed

section \<open>Properties of the returns extraction\<close>

lemma columns_take_rows: "columns (take_rows ps t) = columns t"
  by (simp add: columns_def take_rows_def comp_def case_prod_beta)

lemma map_fst_replace:
  "map fst (map (\<lambda>(k, old). if k = name then (k, c) else (k, old)) xs) = map fst xs"
  by (induction xs) auto

lemma columns_set_col_list:
  "columns (set_col t name c) = (if name \<in> set (columns t) then columns t else columns t @ [name])"
proof -
  have "map fst (tcols (t\<lparr>tcols := map (\<lambda>(k, old). if k = name then (k, c) else (k, old)) (tcols t)\<rparr>))
      = map fst (tcols t)"
    using map_fst_replace [of name c "tcols t"] by simp
  then show ?thesis
    by (simp add: columns_def set_col_def del: map_map)
qed

lemma columns_set_col: "set (columns (set_col t name c)) = insert name (set (columns t))"
  by (auto simp: columns_set_col_list)

lemma map_of_set_col_same: "map_of (tcols (set_col t name c)) name = Some c"
proof (cases "name \<in> set (columns t)")
  case True
  have "name \<in> fst ` set xs \<Longrightarrow>
      map_of (map (\<lambda>(k, old). if k = name then (k, c) else (k, old)) xs) name = Some c"
    for xs :: "(string \<times> column) list"
    by (induction xs) auto
  then show ?thesis using True by (simp add: set_col_def columns_def)
next
  case False
  then have "map_of (tcols t) name = None"
    by (simp add: columns_def map_of_eq_None_iff)
  then show ?thesis using False by (simp add: set_col_def map_add_def)
qed

lemma first_column_None:
  "set names \<inter> set (columns t) = {} \<Longrightarrow> first_column names t = None"
  by (auto simp: first_column_def find_None_iff)

lemma extract_returns_no_columns:
  assumes "set (columns fd) \<inter>
      {''DAILY_RETURN'', ''RENTABILIDADE'', ''RETURN'', ''RET'', ''VL_QUOTA'', ''QUOTA'', ''NAV''} = {}"
    and "map_of (tcols fd) ''CNPJ_STANDARD'' \<noteq> None"
  shows "extract_returns P fd cnpj pm = Inr None"
proof -
  obtain key where key: "map_of (tcols fd) ''CNPJ_STANDARD'' = Some key"
    using assms(2) by auto
  have r: "first_column [''DAILY_RETURN'', ''RENTABILIDADE'', ''RETURN'', ''RET''] (take_rows ps fd) = None" for ps
    using assms(1) by (intro first_column_None) (auto simp: columns_take_rows)
  have q: "first_column [''VL_QUOTA'', ''QUOTA'', ''NAV''] (take_rows ps fd) = None" for ps
    using assms(1) by (intro first_column_None) (auto simp: columns_take_rows)
  show ?thesis
    by (simp add: extract_returns_def get_col_def key bind_err_def Let_def r q)
qed

text \<open>
  Claim C8.  When the table has none of the return columns \<^verbatim>\<open>DAILY_RETURN\<close>,
  \<^verbatim>\<open>RENTABILIDADE\<close>, \<^verbatim>\<open>RETURN\<close>, \<^verbatim>\<open>RET\<close> and none of the quota columns
  \<^verbatim>\<open>VL_QUOTA\<close>, \<^verbatim>\<open>QUOTA\<close>, \<^verbatim>\<open>NAV\<close>, the function returns \<^verbatim>\<open>None\<close> and raises
  nothing, whatever the identifier, the period, the other columns, the index and the
  platform's conversions are.
\<close>

theorem get_fund_returns_no_columns:
  assumes "set (columns fd) \<inter>
      {''DAILY_RETURN'', ''RENTABILIDADE'', ''RETURN'', ''RET'', ''VL_QUOTA'', ''QUOTA'', ''NAV''} = {}"
  shows "snd (get_fund_returns P (Some fd) cnpj_standard period_months) = Inr None"
proof (cases cnpj_standard)
  case None
  then show ?thesis by (simp add: get_fund_returns_def)
next
  case (Some cnpj)
  show ?thesis
  proof (cases "''CNPJ_STANDARD'' \<in> set (columns fd)")
    case True
    then have "map_of (tcols fd) ''CNPJ_STANDARD'' \<noteq> None"
      by (simp add: columns_def map_of_eq_None_iff)
    from extract_returns_no_columns [OF assms this] show ?thesis
      using Some True by (simp add: get_fund_returns_def)
  next
    case False
    show ?thesis
    proof (cases "map_of (tcols fd) ''CNPJ''")
      case None
      then show ?thesis using Some False by (simp add: get_fund_returns_def)
    next
      case (Some c)
      define fd' where "fd' = set_col fd ''CNPJ_STANDARD'' (apply_standardize_cnpj P c)"
      have a: "set (columns fd') \<inter>
        {''DAILY_RETURN'', ''RENTABILIDADE'', ''RETURN'', ''RET'', ''VL_QUOTA'', ''QUOTA'', ''NAV''} = {}"
        using assms by (simp add: fd'_def columns_set_col)
      have b: "map_of (tcols fd') ''CNPJ_STANDARD'' \<noteq> None"
        by (simp add: fd'_def map_of_set_col_same)
      from extract_returns_no_columns [OF a b] show ?thesis
        using Some False \<open>cnpj_standard = Some cnpj\<close>
        by (simp add: get_fund_returns_def Let_def fd'_def)
    qed
  qed
qed

theorem get_fund_returns_no_columns_witness:
  "set (columns \<lparr>tindex = OtherIndex (NumCol [Fin 0, Fin 1]), tindex_name = None,
         tcols = [(''DT_COMPTC'', StrCol [OStr ''2024-01-02'', OStr ''2024-01-03'']),
                  (''CNPJ'', StrCol [OStr ''123'', OStr ''123'']),
                  (''VL_PATRIM_LIQ'', NumCol [Fin 100, Fin 110])]\<rparr>) \<inter>
      {''DAILY_RETURN'', ''RENTABILIDADE'', ''RETURN'', ''RET'', ''VL_QUOTA'', ''QUOTA'', ''NAV''} = {}
   \<and> (\<forall>P. snd (get_fund_returns P
         (Some \<lparr>tindex = OtherIndex (NumCol [Fin 0, Fin 1]), tindex_name = None,
            tcols = [(''DT_COMPTC'', StrCol [OStr ''2024-01-02'', OStr ''2024-01-03'']),
                     (''CNPJ'', StrCol [OStr ''123'', OStr ''123'']),
                     (''VL_PATRIM_LIQ'', NumCol [Fin 100, Fin 110])]\<rparr>)
         (Some ''00000000000123'') None) = Inr None)"
proof -
  have h: "set (columns \<lparr>tindex = OtherIndex (NumCol [Fin 0, Fin 1]), tindex_name = None,
         tcols = [(''DT_COMPTC'', StrCol [OStr ''2024-01-02'', OStr ''2024-01-03'']),
                  (''CNPJ'', StrCol [OStr ''123'', OStr ''123'']),
                  (''VL_PATRIM_LIQ'', NumCol [Fin 100, Fin 110])]\<rparr>) \<inter>
      {''DAILY_RETURN'', ''RENTABILIDADE'', ''RETURN'', ''RET'', ''VL_QUOTA'', ''QUOTA'', ''NAV''} = {}"
    by (simp add: columns_def)
  show ?thesis
  proof (intro conjI allI)
    show "set (columns \<lparr>tindex = OtherIndex (NumCol [Fin 0, Fin 1]), tindex_name = None,
         tcols = [(''DT_COMPTC'', StrCol [OStr ''2024-01-02'', OStr ''2024-01-03'']),
                  (''CNPJ'', StrCol [OStr ''123'', OStr ''123'']),
                  (''VL_PATRIM_LIQ'', NumCol [Fin 100, Fin 110])]\<rparr>) \<inter>
      {''DAILY_RETURN'', ''RENTABILIDADE'', ''RETURN'', ''RET'', ''VL_QUOTA'', ''QUOTA'', ''NAV''} = {}"
      by (rule h)
  next
    fix P
    show "snd (get_fund_returns P
         (Some \<lparr>tindex = OtherIndex (NumCol [Fin 0, Fin 1]), tindex_name = None,
            tcols = [(''DT_COMPTC'', StrCol [OStr ''2024-01-02'', OStr ''2024-01-03'']),
                     (''CNPJ'', StrCol [OStr ''123'', OStr ''123'']),
                     (''VL_PATRIM_LIQ'', NumCol [Fin 100, Fin 110])]\<rparr>)
         (Some ''00000000000123'') None) = Inr None"
      by (rule get_fund_returns_no_columns [OF h])
  qed
qed

subsection \<open>The caller's table\<close>

text \<open>
  The table is left as it was when it already has a \<^verbatim>\<open>CNPJ_STANDARD\<close> column, or has no
  \<^verbatim>\<open>CNPJ\<close> column.  Otherwise the call appends a \<^verbatim>\<open>CNPJ_STANDARD\<close> column to the
  caller's table (and changes nothing else of it).
\<close>

lemma get_fund_returns_frame:
  "''CNPJ_STANDARD'' \<in> set (columns fd) \<or> ''CNPJ'' \<notin> set (columns fd) \<Longrightarrow>
     fst (get_fund_returns P (Some fd) cnpj pm) = Some fd"
  by (auto simp: get_fund_returns_def columns_def map_of_eq_None_iff split: option.splits
      dest!: map_of_SomeD) force

lemma get_fund_returns_adds_column:
  assumes "''CNPJ_STANDARD'' \<notin> set (columns fd)" "map_of (tcols fd) ''CNPJ'' = Some c"
  shows "fst (get_fund_returns P (Some fd) (Some cnpj) pm)
     = Some (fd\<lparr>tcols := tcols fd @ [(''CNPJ_STANDARD'', apply_standardize_cnpj P c)]\<rparr>)"
  using assms by (simp add: get_fund_returns_def Let_def set_col_def)

text \<open>
  Claim C1 fails on the code.  The table below has a \<^verbatim>\<open>CNPJ\<close> column and no
  \<^verbatim>\<open>CNPJ_STANDARD\<close> column; after the call the caller's table has a third column,
  \<^verbatim>\<open>CNPJ_STANDARD\<close>.  (The call itself succeeds: the quota goes from 100 to 110, one
  return of 1/10.)
\<close>

theorem get_fund_returns_changes_table:
  "get_fund_returns P
     (Some \<lparr>tindex = DatetimeIndex [Some 1, Some 2], tindex_name = None,
         tcols = [(''CNPJ'', StrCol [OStr ''123'', OStr ''123'']),
                  (''VL_QUOTA'', NumCol [Fin 100, Fin 110])]\<rparr>)
     (Some ''00000000000123'') None
   = (Some \<lparr>tindex = DatetimeIndex [Some 1, Some 2], tindex_name = None,
         tcols = [(''CNPJ'', StrCol [OStr ''123'', OStr ''123'']),
                  (''VL_QUOTA'', NumCol [Fin 100, Fin 110]),
                  (''CNPJ_STANDARD'', StrCol [OStr ''00000000000123'', OStr ''00000000000123''])]\<rparr>,
      Inr (Some (([Some 2], NumCol [Fin (1 / 10)]), ([Some 2], NumCol [Fin (1 / 10)]))))
   \<and> fst (get_fund_returns P
          (Some \<lparr>tindex = DatetimeIndex [Some 1, Some 2], tindex_name = None,
              tcols = [(''CNPJ'', StrCol [OStr ''123'', OStr ''123'']),
                       (''VL_QUOTA'', NumCol [Fin 100, Fin 110])]\<rparr>)
          (Some ''00000000000123'') None)
       \<noteq> Some \<lparr>tindex = DatetimeIndex [Some 1, Some 2], tindex_name = None,
              tcols = [(''CNPJ'', StrCol [OStr ''123'', OStr ''123'']),
                       (''VL_QUOTA'', NumCol [Fin 100, Fin 110])]\<rparr>"
proof -
  have s: "standardize_cnpj (Some ''123'') = Some ''00000000000123''"
    by code_simp
  have "get_fund_returns P
     (Some \<lparr>tindex = DatetimeIndex [Some 1, Some 2], tindex_name = None,
         tcols = [(''CNPJ'', StrCol [OStr ''123'', OStr ''123'']),
                  (''VL_QUOTA'', NumCol [Fin 100, Fin 110])]\<rparr>)
     (Some ''00000000000123'') None
   = (Some \<lparr>tindex = DatetimeIndex [Some 1, Some 2], tindex_name = None,
         tcols = [(''CNPJ'', StrCol [OStr ''123'', OStr ''123'']),
                  (''VL_QUOTA'', NumCol [Fin 100, Fin 110]),
                  (''CNPJ_STANDARD'', StrCol [OStr ''00000000000123'', OStr ''00000000000123''])]\<rparr>,
      Inr (Some (([Some 2], NumCol [Fin (1 / 10)]), ([Some 2], NumCol [Fin (1 / 10)]))))"
    by (simp add: get_fund_returns_def columns_def set_col_def Let_def s ocell_of_def
        extract_returns_def get_col_def bind_err_def take_rows_def mask_positions_def nrows_def
        first_column_def ensure_date_index_def sort_index_def sorted_positions_def
        index_labels_def series_dropna_def series_take_def finish_returns_def first_positions_def
        sub_py_def)
  then show ?thesis by simp
qed

section \<open>Properties of the flow analysis\<close>

lemma foldl_add_py_Fin: "foldl add_py (Fin a) (map Fin xs) = Fin (a + sum_list xs)"
  by (induction xs arbitrary: a) (auto simp: algebra_simps)

lemma tail_sum_Fin: "tail_sum (map Fin ms) k = Fin (sum_list (drop (length ms - k) ms))"
proof -
  have "filter (\<lambda>x. x \<noteq> NaN) (map Fin xs) = map Fin xs" for xs
    by (induction xs) auto
  then show ?thesis
    by (simp add: tail_sum_def drop_map foldl_add_py_Fin)
qed

lemma iloc_neg_Fin:
  "1 \<le> k \<Longrightarrow> k \<le> length xs \<Longrightarrow> iloc_neg (map Fin xs) k = Inr (Fin (xs ! (length xs - k)))"
  by (simp add: iloc_neg_def)

lemma int_or_zero_Fin: "int_or_zero (Fin r) = Inr (trunc r)"
  by (simp add: int_or_zero_def trunc_def)

lemma has_column_iff: "name \<in> set (columns t) \<longleftrightarrow> map_of (tcols t) name \<noteq> None"
  by (simp add: columns_def map_of_eq_None_iff)

lemma bind_err_Inr: "bind_err (Inr v) f = f v"
  by (simp add: bind_err_def)

text \<open>
  Claim C9, as the code computes it.  On the prepared table of \<open>n \<ge> 2\<close> rows whose transfer
  and shareholder columns hold numbers (no missing value), with the net-asset column absent
  or numeric, the figures are computed and
  \<^item> the daily transfer figure is the last transfer value;
  \<^item> the weekly transfer figure is the sum of the last 5 transfer values when there are at
    least 5 rows, and the daily figure otherwise (not the sum of the rows there are);
  \<^item> the monthly transfer figure is the sum of the last 22 transfer values when there are
    at least 22 rows, and the weekly figure otherwise;
  \<^item> the daily shareholder delta is the last count minus the one before;
  \<^item> the weekly shareholder delta is the last count minus the count 5 rows earlier when
    there are at least 6 rows, and the daily delta otherwise;
  \<^item> the monthly shareholder delta is the last count minus the count 22 rows earlier when
    there are at least 23 rows, and the weekly delta otherwise
  (the deltas are reported as integers, truncated towards zero).
\<close>

theorem flow_figures_windows:
  assumes n: "nrows fd = n" "2 \<le> n"
    and mov: "map_of (tcols fd) ''MOVIMENTACAO'' = Some (NumCol (map Fin ms))" "length ms = n"
    and cot: "map_of (tcols fd) ''NR_COTST'' = Some (NumCol (map Fin cs))" "length cs = n"
    and aum: "map_of (tcols fd) ''VL_PATRIM_LIQ'' = None
              \<or> (\<exists>a. map_of (tcols fd) ''VL_PATRIM_LIQ'' = Some (NumCol a) \<and> length a = n)"
  shows "\<exists>f. flow_figures fd = Inr (Some f)
     \<and> daily_transfers f = Fin (last ms)
     \<and> weekly_transfers f = Fin (if 5 \<le> n then sum_list (drop (n - 5) ms) else last ms)
     \<and> monthly_transfers f =
         Fin (if 22 \<le> n then sum_list (drop (n - 22) ms)
              else if 5 \<le> n then sum_list (drop (n - 5) ms) else last ms)
     \<and> daily_investors f = trunc (cs ! (n - 1) - cs ! (n - 2))
     \<and> weekly_investors f =
         trunc (if 6 \<le> n then cs ! (n - 1) - cs ! (n - 6) else cs ! (n - 1) - cs ! (n - 2))
     \<and> monthly_investors f =
         trunc (if 23 \<le> n then cs ! (n - 1) - cs ! (n - 23)
                else if 6 \<le> n then cs ! (n - 1) - cs ! (n - 6)
                else cs ! (n - 1) - cs ! (n - 2))"
proof -
  have hm: "''MOVIMENTACAO'' \<in> set (columns fd)" and hc: "''NR_COTST'' \<in> set (columns fd)"
    using mov cot by (simp_all add: has_column_iff)
  have nm: "num_col fd ''MOVIMENTACAO'' = Inr (map Fin ms)"
    and nc: "num_col fd ''NR_COTST'' = Inr (map Fin cs)"
    using mov cot by (simp_all add: num_col_def)
  have lastms: "ms ! (n - Suc 0) = last ms"
    using mov(2) n(2) by (metis One_nat_def last_conv_nth length_0_conv not_numeral_le_zero)
  have im: "iloc_neg (map Fin ms) (Suc 0) = Inr (Fin (last ms))"
    using iloc_neg_Fin [of 1 ms] mov(2) n(2) lastms by simp
  have ic: "k \<le> n \<Longrightarrow> 1 \<le> k \<Longrightarrow> iloc_neg (map Fin cs) k = Inr (Fin (cs ! (n - k)))" for k
    using iloc_neg_Fin [of k cs] cot(2) by simp
  have ic1: "iloc_neg (map Fin cs) (Suc 0) = Inr (Fin (cs ! (n - 1)))"
    and ic2: "iloc_neg (map Fin cs) 2 = Inr (Fin (cs ! (n - 2)))"
    using ic [of 1] ic [of 2] n(2) by simp_all
  have ic6: "6 \<le> n \<Longrightarrow> iloc_neg (map Fin cs) 6 = Inr (Fin (cs ! (n - 6)))"
    and ic23: "23 \<le> n \<Longrightarrow> iloc_neg (map Fin cs) 23 = Inr (Fin (cs ! (n - 23)))"
    using ic [of 6] ic [of 23] by simp_all
  have ts: "tail_sum (map Fin ms) k = Fin (sum_list (drop (n - k) ms))" for k
    using tail_sum_Fin [of ms k] mov(2) by simp
  have aum_ok: "\<exists>v. (if ''VL_PATRIM_LIQ'' \<in> set (columns fd)
                    then bind_err (num_col fd ''VL_PATRIM_LIQ'')
                           (\<lambda>a. bind_err (iloc_neg a 1) (\<lambda>v. Inr (Some v)))
                    else Inr None) = Inr v"
    using aum
  proof
    assume "map_of (tcols fd) ''VL_PATRIM_LIQ'' = None"
    then show ?thesis by (simp add: has_column_iff)
  next
    assume "\<exists>a. map_of (tcols fd) ''VL_PATRIM_LIQ'' = Some (NumCol a) \<and> length a = n"
    then obtain a where a: "map_of (tcols fd) ''VL_PATRIM_LIQ'' = Some (NumCol a)" "length a = n"
      by blast
    then show ?thesis using n(2)
      by (simp add: has_column_iff num_col_def bind_err_Inr iloc_neg_def)
  qed
  then obtain av where av: "(if ''VL_PATRIM_LIQ'' \<in> set (columns fd)
                    then bind_err (num_col fd ''VL_PATRIM_LIQ'')
                           (\<lambda>a. bind_err (iloc_neg a 1) (\<lambda>v. Inr (Some v)))
                    else Inr None) = Inr av"
    by blast
  have two: "2 \<le> n" by (rule n(2))
  show ?thesis
    unfolding flow_figures_def Let_def n(1) av
    using two
    by (simp add: hm hc nm nc bind_err_Inr im ic1 ic2 ic6 ic23 ts sub_py_def int_or_zero_Fin)
qed


theorem flow_figures_windows_witness:
  "nrows \<lparr>tindex = DatetimeIndex [Some 1, Some 2, Some 3, Some 4, Some 5, Some 6],
           tindex_name = None,
           tcols = [(''MOVIMENTACAO'', NumCol (map Fin [1, 2, 3, 4, 5, 6])),
                    (''NR_COTST'', NumCol (map Fin [10, 11, 12, 13, 14, 16]))]\<rparr> = 6
   \<and> (\<exists>f. flow_figures
            \<lparr>tindex = DatetimeIndex [Some 1, Some 2, Some 3, Some 4, Some 5, Some 6],
             tindex_name = None,
             tcols = [(''MOVIMENTACAO'', NumCol (map Fin [1, 2, 3, 4, 5, 6])),
                      (''NR_COTST'', NumCol (map Fin [10, 11, 12, 13, 14, 16]))]\<rparr> = Inr (Some f)
          \<and> daily_transfers f = Fin 6 \<and> weekly_transfers f = Fin 20
          \<and> monthly_transfers f = Fin 20
          \<and> daily_investors f = 2 \<and> weekly_investors f = 6 \<and> monthly_investors f = 6)"
proof -
  let ?t = "\<lparr>tindex = DatetimeIndex [Some 1, Some 2, Some 3, Some 4, Some 5, Some 6],
           tindex_name = None,
           tcols = [(''MOVIMENTACAO'', NumCol (map Fin [1, 2, 3, 4, 5, 6])),
                    (''NR_COTST'', NumCol (map Fin [10, 11, 12, 13, 14, 16]))]\<rparr>"
  have h: "nrows ?t = 6" "(2::nat) \<le> 6"
    "map_of (tcols ?t) ''MOVIMENTACAO'' = Some (NumCol (map Fin [1, 2, 3, 4, 5, 6]))"
    "length [1, 2, 3, 4, 5, 6 :: real] = 6"
    "map_of (tcols ?t) ''NR_COTST'' = Some (NumCol (map Fin [10, 11, 12, 13, 14, 16]))"
    "length [10, 11, 12, 13, 14, 16 :: real] = 6"
    "map_of (tcols ?t) ''VL_PATRIM_LIQ'' = None
       \<or> (\<exists>a. map_of (tcols ?t) ''VL_PATRIM_LIQ'' = Some (NumCol a) \<and> length a = 6)"
    by (simp_all add: nrows_def)
  have d: "drop (Suc 0) [1, 2, 3, 4, 5, 6 :: real] = [2, 3, 4, 5, 6]" by simp
  from flow_figures_windows [OF h]
  show ?thesis
    using h(1) by (simp add: trunc_def d)
qed

text \<open>
  The claim as stated fails for a history shorter than five rows: with the three transfer
  values 1, 2 and 3 the weekly (and monthly) transfer figure is the daily figure 3, not
  the sum 6 of the values there are.
\<close>

theorem flow_figures_short_history_counterexample:
  "flow_figures
     \<lparr>tindex = DatetimeIndex [Some 1, Some 2, Some 3], tindex_name = None,
      tcols = [(''CNPJ_STANDARD'', StrCol [OStr ''00000000000123'', OStr ''00000000000123'',
                                          OStr ''00000000000123'']),
               (''NR_COTST'', NumCol [Fin 10, Fin 12, Fin 15]),
               (''MOVIMENTACAO'', NumCol [Fin 1, Fin 2, Fin 3])]\<rparr>
   = Inr (Some \<lparr>aum = None, shareholders = Some 15,
                daily_transfers = Fin 3, daily_transfers_pct = Fin 0,
                daily_investors = 3, daily_investors_pct = Fin 20,
                weekly_transfers = Fin 3, weekly_transfers_pct = Fin 0,
                weekly_investors = 3, weekly_investors_pct = Fin 20,
                monthly_transfers = Fin 3, monthly_transfers_pct = Fin 0,
                monthly_investors = 3, monthly_investors_pct = Fin 20\<rparr>)
   \<and> Fin 3 \<noteq> Fin (1 + 2 + 3)"
  by (simp add: flow_figures_def Let_def nrows_def columns_def num_col_def bind_err_def
      iloc_neg_def sub_py_def int_or_zero_def trunc_def safe_pct_def)

text \<open>
  The table of the counterexample is a prepared table: the whole function, called on it
  with its identifier, computes exactly these figures.
\<close>

lemma calculate_fund_flow_metrics_example:
  "calculate_fund_flow_metrics P
     (Some \<lparr>tindex = DatetimeIndex [Some 1, Some 2, Some 3], tindex_name = None,
      tcols = [(''CNPJ_STANDARD'', StrCol [OStr ''00000000000123'', OStr ''00000000000123'',
                                          OStr ''00000000000123'']),
               (''NR_COTST'', NumCol [Fin 10, Fin 12, Fin 15]),
               (''MOVIMENTACAO'', NumCol [Fin 1, Fin 2, Fin 3])]\<rparr>)
     (Some ''00000000000123'')
   = flow_figures
     \<lparr>tindex = DatetimeIndex [Some 1, Some 2, Some 3], tindex_name = None,
      tcols = [(''CNPJ_STANDARD'', StrCol [OStr ''00000000000123'', OStr ''00000000000123'',
                                          OStr ''00000000000123'']),
               (''NR_COTST'', NumCol [Fin 10, Fin 12, Fin 15]),
               (''MOVIMENTACAO'', NumCol [Fin 1, Fin 2, Fin 3])]\<rparr>"
proof -
  have a: "descending_positions [Fin 10, Fin 12, Fin 15] = [2, 1, 0]"
    by (simp add: descending_positions_def)
  have b: "first_positions [Some 3, Some 2, Some (1::int)] = [0, 1, 2]"
    by (simp add: first_positions_def)
  have c: "sorted_positions [Some 3, Some 2, Some 1] = [2, 1, 0]"
    by (simp add: sorted_positions_def)
  have m: "mask_positions [True, True, True] = [0, 1, 2]"
    by (simp add: mask_positions_def)
  show ?thesis
    by (simp add: calculate_fund_flow_metrics_def Let_def m take_rows_def nrows_def
        bind_err_def reset_then_set_index_def handle_duplicates_def columns_def num_col_def
        a index_labels_def b sort_index_def c)
qed

section \<open>Properties of the allocation optimizer\<close>

text \<open>
  On non-convergence the endpoint answers with no result: when the solver reports
  failure the response is the \<^verbatim>\<open>HTTPException\<close> with code 500 and detail
  ``Optimization failed to converge'' (unless an earlier check already failed), which is
  not one of the two insufficient-data failures with code 400.  A result, when there is
  one, comes from a successful solve and carries the status and the iteration count.
\<close>

lemma sum_list_zeroed_pos:
  assumes "\<exists>w\<in>set xs. 1 / 100 \<le> (w::real)"
  shows "0 < sum_list (map (\<lambda>w. if w < 1 / 100 then 0 else w) xs)"
proof -
  have nn: "\<forall>v\<in>set (map (\<lambda>w. if w < 1 / 100 then 0 else w) xs). 0 \<le> (v::real)"
    by auto
  obtain w where w: "w \<in> set xs" "1 / 100 \<le> w" using assms by blast
  then have "w \<in> set (map (\<lambda>w. if w < 1 / 100 then 0 else w) xs)"
    by force
  then have "w \<le> sum_list (map (\<lambda>w. if w < 1 / 100 then 0 else w) xs)"
    using nn by (meson member_le_sum_list)
  then show ?thesis using w by linarith
qed

lemma finish_optimization_weights:
  assumes "\<exists>w\<in>set xs. 1 / 100 \<le> w" "length fund_names = length xs"
  shows "weights (finish_optimization fund_names mean_returns cov_matrix xs n) =
      (let total = sum_list (filter (\<lambda>w. 1 / 100 \<le> w) xs)
       in map (\<lambda>(name, w). (name, Fin (w / total)))
            (filter (\<lambda>(name, w). 1 / 100 \<le> w) (zip fund_names xs)))"
    and "sum_list (map (\<lambda>w. w / sum_list (filter (\<lambda>w. 1 / 100 \<le> w) xs))
                    (filter (\<lambda>w. 1 / 100 \<le> w) xs)) = 1"
proof -
  define zeroed where "zeroed = map (\<lambda>w. if w < 1 / 100 then 0 else w) xs"
  define total where "total = sum_list zeroed"
  have pos: "0 < total" using sum_list_zeroed_pos [OF assms(1)] by (simp add: total_def zeroed_def)
  have tot: "total = sum_list (filter (\<lambda>w. 1 / 100 \<le> w) xs)"
    unfolding total_def zeroed_def by (induction xs) auto
  have ow: "map (\<lambda>w. div_py (Fin w) (Fin total)) zeroed = map (\<lambda>w. Fin (w / total)) zeroed"
    using pos by simp
  have "filter (\<lambda>(name, w). lt_py (Fin 0) w) (zip names (map (\<lambda>w. Fin (w / total)) (map (\<lambda>w. if w < 1 / 100 then 0 else w) ys)))
      = map (\<lambda>(name, w). (name, Fin (w / total))) (filter (\<lambda>(name, w). 1 / 100 \<le> w) (zip names ys))"
    for names :: "string list" and ys
  proof (induction ys arbitrary: names)
    case Nil
    then show ?case by simp
  next
    case (Cons y ys)
    show ?case
    proof (cases names)
      case Nil
      then show ?thesis by simp
    next
      case (Cons a as)
      have "1 / 100 \<le> y \<Longrightarrow> 0 < y / total" using pos by simp
      then show ?thesis using Cons Cons.IH [of as] by auto
    qed
  qed
  then have B: "filter (\<lambda>(name, w). lt_py (Fin 0) w)
        (zip fund_names (map (\<lambda>w. Fin (w / total)) (map (\<lambda>w. if w < 1 / 100 then 0 else w) xs)))
      = map (\<lambda>(name, w). (name, Fin (w / total)))
          (filter (\<lambda>(name, w). 1 / 100 \<le> w) (zip fund_names xs))"
    by blast
  have A: "map (\<lambda>w. div_py (Fin w) (Fin (sum_list (map (\<lambda>w. if w < 1 / 100 then 0 else w) xs))))
        (map (\<lambda>w. if w < 1 / 100 then 0 else w) xs)
      = map (\<lambda>w. Fin (w / total)) (map (\<lambda>w. if w < 1 / 100 then 0 else w) xs)"
    using ow unfolding zeroed_def total_def .
  show "weights (finish_optimization fund_names mean_returns cov_matrix xs n) =
      (let total = sum_list (filter (\<lambda>w. 1 / 100 \<le> w) xs)
       in map (\<lambda>(name, w). (name, Fin (w / total)))
            (filter (\<lambda>(name, w). 1 / 100 \<le> w) (zip fund_names xs)))"
    unfolding finish_optimization_def Let_def A B tot [symmetric]
    by (simp only: optimization_result.select_convs)
  have "sum_list (map (\<lambda>w. w / total) ys) = sum_list ys / total" for ys
    by (induction ys) (auto simp: add_divide_distrib)
  then show "sum_list (map (\<lambda>w. w / sum_list (filter (\<lambda>w. 1 / 100 \<le> w) xs))
                    (filter (\<lambda>w. 1 / 100 \<le> w) xs)) = 1"
    using pos tot by simp
qed

lemma optimize_portfolio_not_converged:
  assumes "\<And>m c b i. \<not> res_success (minimize m c b i)"
  shows "optimize_portfolio minimize loaded fund_returns constraints \<in>
     {HTTPException 503 ''Fund data not loaded'',
      HTTPException 400 ''Need at least 2 funds with sufficient data for optimization'',
      HTTPException 400 ''Insufficient overlapping data'',
      HTTPException 500 ''Optimization failed to converge''}
     \<or> (\<exists>e. optimize_portfolio minimize loaded fund_returns constraints = Unhandled e)"
  using assms by (auto simp: optimize_portfolio_def Let_def split: sum.splits)

lemma finish_optimization_no_weights:
  assumes "\<forall>w\<in>set xs. w < 1 / 100"
  shows "weights (finish_optimization fund_names mean_returns cov_matrix xs n) = []"
proof -
  have z: "map (\<lambda>w. if w < 1 / 100 then 0 else w) xs = replicate (length xs) (0::real)"
    using assms by (simp add: map_replicate_const [symmetric])
  have o: "map (\<lambda>w. div_py (Fin w) (Fin (sum_list (replicate (length xs) (0::real)))))
        (replicate (length xs) 0) = replicate (length xs) NaN"
    by (simp add: sum_list_replicate)
  have "filter (\<lambda>(name, w). lt_py (Fin 0) w) (zip fund_names (replicate (length xs) NaN)) = []"
    by (auto simp: filter_empty_conv dest!: set_zip_rightD)
  then show ?thesis
    unfolding finish_optimization_def Let_def z o by simp
qed

lemma optimize_portfolio_success:
  assumes "optimize_portfolio minimize loaded fund_returns constraints = Ok r"
  shows "status r = ''success'' \<and> iterations r \<noteq> None"
proof -
  have st: "status (finish_optimization names m c xs k) = ''success''"
    and it: "iterations (finish_optimization names m c xs k) = Some k" for names m c xs k
    by (simp_all add: finish_optimization_def Let_def)
  from assms show ?thesis
    by (auto simp: optimize_portfolio_def Let_def st it split: sum.splits if_splits)
qed

lemma optimize_portfolio_result:
  assumes "optimize_portfolio minimize loaded fund_returns constraints = Ok r"
  shows "\<exists>names m c b i.
      res_success (minimize m c b i)
      \<and> r = finish_optimization names m c (res_x (minimize m c b i)) (res_nit (minimize m c b i))"
  using assms
  apply (auto simp: optimize_portfolio_def Let_def split: sum.splits if_splits)
  apply (intro exI conjI)
   apply assumption
  apply (rule refl)
  done

text \<open>
  Claim C2 fails on the code when every weight of the solution is below 1%, which a
  successful solve over more than 100 funds can return.  For 200 funds at weight 1/200
  each (the only point within the bounds \<open>[0, 0.005]\<close> that sums to one), every weight is
  set to zero, the division by the zero sum gives NaN in every position, and the reported
  weights are empty: they do not sum to one, whatever the fund names, the means and the
  covariances are.
\<close>

theorem finish_optimization_all_small:
  "weights (finish_optimization fund_names mean_returns cov_matrix (replicate 200 (1 / 200)) n) = []"
proof -
  have z: "map (\<lambda>w. if w < 1 / 100 then 0 else w) (replicate 200 (1 / 200 :: real)) = replicate 200 0"
    by simp
  have o: "map (\<lambda>w. div_py (Fin w) (Fin (sum_list (replicate 200 (0::real))))) (replicate 200 0)
      = replicate 200 NaN"
    by (simp add: sum_list_replicate)
  have "filter (\<lambda>(name, w). lt_py (Fin 0) w) (zip fund_names (replicate 200 NaN)) = []"
    by (auto simp: filter_empty_conv dest!: set_zip_rightD)
  then show ?thesis
    unfolding finish_optimization_def Let_def z o by simp
qed

end
